theory Spec2Isabelle
  imports Main "HOL-Library.Sublist"
begin

section \<open>Data model (types.ts)\<close>

text \<open>
  The closed set of categories. The record fields of \<open>MemoryStore\<close> carry the
  source's lower-case names, so the constructors are capitalised.
\<close>

datatype Category = Struggles | Development | Mindset

text \<open>
  \<open>details\<close> is declared \<open>string[]\<close>, but the journal reads it through
  \<open>details?.some(...)\<close>: a record may lack the field. \<open>None\<close> is the absent
  (undefined) field.
\<close>

record MemoryValue =
  description :: string
  details :: "string list option"

text \<open>
  \<open>ChatMessage\<close> is declared before \<open>MemoryItem\<close>: both have fields \<open>id\<close> and
  \<open>timestamp\<close>, and the unqualified names are those of \<open>MemoryItem\<close>.
  The role \<open>'user' | 'model'\<close> is a datatype; the numeric timestamp is a \<open>nat\<close>.
\<close>

datatype Role = user | model

record ChatMessage =
  id :: string
  role :: Role
  "text" :: string
  timestamp :: nat

record MemoryItem =
  id :: string
  timestamp :: string
  "value" :: MemoryValue

record MemoryStore =
  struggles :: "MemoryItem list"
  development :: "MemoryItem list"
  mindset :: "MemoryItem list"

text \<open>The journal's filter state, \<open>Category | 'all'\<close>.\<close>

datatype JournalFilter = All | Only Category

section \<open>JavaScript built-ins used by the application\<close>

text \<open>
  Strings are byte strings (UTF-8). Two string methods of the JavaScript engine
  depend on Unicode tables: \<open>trim\<close>, which removes leading and trailing white
  space and line terminators, and \<open>toLowerCase\<close>. They are parameters of every
  function that calls them, under their own names, and every property below holds
  for every function in their place, so for those of the engine. \<open>str_includes s q\<close>
  is \<open>s.includes(q)\<close>, the substring test.
\<close>

fun str_includes :: "string \<Rightarrow> string \<Rightarrow> bool" where
  "str_includes [] q = (q = [])"
| "str_includes (c # cs) q = (prefix q (c # cs) \<or> str_includes cs q)"

subsection \<open>JSON values and \<open>JSON.stringify\<close>\<close>

text \<open>
  A number keeps its lexeme: the application stores no number under the memory
  key, and the conversion to a double is not modelled.
\<close>

datatype json =
    JNull
  | JBool bool
  | JNum string
  | JStr string
  | JArr "json list"
  | JObj "(string \<times> json) list"

definition hex_digit :: "nat \<Rightarrow> char" where
  "hex_digit n = (if n < 10 then char_of (48 + n) else char_of (87 + n))"

text \<open>
  \<open>QuoteJSONString\<close> of ECMA-262: the two-character escapes, \<open>\u00xx\<close> for the
  other control characters, every other character as it is.
\<close>

definition QuoteJSONString_char :: "char \<Rightarrow> string" where
  "QuoteJSONString_char c =
     (if c = CHR 0x08 then [CHR 0x5C, CHR ''b'']
      else if c = CHR 0x09 then [CHR 0x5C, CHR ''t'']
      else if c = CHR 0x0A then [CHR 0x5C, CHR ''n'']
      else if c = CHR 0x0C then [CHR 0x5C, CHR ''f'']
      else if c = CHR 0x0D then [CHR 0x5C, CHR ''r'']
      else if c = CHR 0x22 then [CHR 0x5C, CHR 0x22]
      else if c = CHR 0x5C then [CHR 0x5C, CHR 0x5C]
      else if (of_char c :: nat) < 32
        then [CHR 0x5C, CHR ''u'', CHR ''0'', CHR ''0'',
              hex_digit ((of_char c :: nat) div 16), hex_digit ((of_char c :: nat) mod 16)]
      else [c])"

definition QuoteJSONString :: "string \<Rightarrow> string" where
  "QuoteJSONString s = [CHR 0x22] @ concat (map QuoteJSONString_char s) @ [CHR 0x22]"

fun join_commas :: "string list \<Rightarrow> string" where
  "join_commas [] = []"
| "join_commas [x] = x"
| "join_commas (x # y # ys) = x @ '','' @ join_commas (y # ys)"

fun JSON_stringify :: "json \<Rightarrow> string"
  and stringify_elements :: "json list \<Rightarrow> string list"
  and stringify_members :: "(string \<times> json) list \<Rightarrow> string list" where
  "JSON_stringify JNull = ''null''"
| "JSON_stringify (JBool b) = (if b then ''true'' else ''false'')"
| "JSON_stringify (JNum n) = n"
| "JSON_stringify (JStr s) = QuoteJSONString s"
| "JSON_stringify (JArr xs) = ''['' @ join_commas (stringify_elements xs) @ '']''"
| "JSON_stringify (JObj kvs) = ''{'' @ join_commas (stringify_members kvs) @ ''}''"
| "stringify_elements [] = []"
| "stringify_elements (x # xs) = JSON_stringify x # stringify_elements xs"
| "stringify_members [] = []"
| "stringify_members ((k, v) # kvs) =
     (QuoteJSONString k @ '':'' @ JSON_stringify v) # stringify_members kvs"

subsection \<open>\<open>JSON.parse\<close>\<close>

text \<open>
  \<open>JSON.parse\<close> in two passes over the text: the tokens of the JSON grammar
  (ECMA-404), then a pushdown automaton over the tokens. \<open>None\<close> is the
  SyntaxError that \<open>JSON.parse\<close> throws on a text that is not JSON.
\<close>

datatype token =
    TLBrace | TRBrace | TLBracket | TRBracket | TColon | TComma
  | TString string | TNumber string | TTrue | TFalse | TNull

definition isDigit :: "char \<Rightarrow> bool" where
  "isDigit c = (48 \<le> (of_char c :: nat) \<and> (of_char c :: nat) \<le> 57)"

definition hex_value :: "char \<Rightarrow> nat option" where
  "hex_value c =
     (let n = (of_char c :: nat) in
      if 48 \<le> n \<and> n \<le> 57 then Some (n - 48)
      else if 65 \<le> n \<and> n \<le> 70 then Some (n - 55)
      else if 97 \<le> n \<and> n \<le> 102 then Some (n - 87)
      else None)"

definition hex4 :: "char \<Rightarrow> char \<Rightarrow> char \<Rightarrow> char \<Rightarrow> nat option" where
  "hex4 a b c d =
     (case (hex_value a, hex_value b, hex_value c, hex_value d) of
        (Some w, Some x, Some y, Some z) \<Rightarrow> Some (((w * 16 + x) * 16 + y) * 16 + z)
      | _ \<Rightarrow> None)"

text \<open>
  A string of the text is read into pieces: a character standing for itself or
  the result of a two-character escape, and the code unit of a \<open>\uXXXX\<close> escape.
  Strings are UTF-8 byte strings, so a code unit becomes the UTF-8 bytes of its
  code point, and a high surrogate followed by a low one the bytes of the pair's
  code point.
\<close>

definition utf8 :: "nat \<Rightarrow> string" where
  "utf8 n =
     (if n < 0x80 then [char_of n]
      else if n < 0x800 then [char_of (0xC0 + n div 64), char_of (0x80 + n mod 64)]
      else if n < 0x10000 then
        [char_of (0xE0 + n div 4096), char_of (0x80 + (n div 64) mod 64), char_of (0x80 + n mod 64)]
      else [char_of (0xF0 + n div 262144), char_of (0x80 + (n div 4096) mod 64),
            char_of (0x80 + (n div 64) mod 64), char_of (0x80 + n mod 64)])"

datatype piece = Lit char | Esc nat

fun decode_pieces :: "piece list \<Rightarrow> string" where
  "decode_pieces [] = []"
| "decode_pieces (Lit c # ps) = c # decode_pieces ps"
| "decode_pieces (Esc hi # Esc lo # ps) =
     (if 0xD800 \<le> hi \<and> hi \<le> 0xDBFF \<and> 0xDC00 \<le> lo \<and> lo \<le> 0xDFFF
      then utf8 (0x10000 + (hi - 0xD800) * 1024 + (lo - 0xDC00)) @ decode_pieces ps
      else utf8 hi @ decode_pieces (Esc lo # ps))"
| "decode_pieces (Esc u # ps) = utf8 u @ decode_pieces ps"

definition simple_escape :: "char \<Rightarrow> char option" where
  "simple_escape e =
     (if e = CHR 0x22 then Some (CHR 0x22)
      else if e = CHR 0x5C then Some (CHR 0x5C)
      else if e = CHR ''/'' then Some (CHR ''/'')
      else if e = CHR ''b'' then Some (CHR 0x08)
      else if e = CHR ''f'' then Some (CHR 0x0C)
      else if e = CHR ''n'' then Some (CHR 0x0A)
      else if e = CHR ''r'' then Some (CHR 0x0D)
      else if e = CHR ''t'' then Some (CHR 0x09)
      else None)"

fun lex_string :: "string \<Rightarrow> (piece list \<times> string) option" where
  "lex_string [] = None"
| "lex_string (c # cs) =
     (if c = CHR 0x22 then Some ([], cs)
      else if c = CHR 0x5C then
        (case cs of
           [] \<Rightarrow> None
         | e # cs1 \<Rightarrow>
             if e = CHR ''u'' then
               (case cs1 of
                  h1 # h2 # h3 # h4 # cs2 \<Rightarrow>
                    (case hex4 h1 h2 h3 h4 of
                       None \<Rightarrow> None
                     | Some u \<Rightarrow> map_option (\<lambda>(ps, rest). (Esc u # ps, rest)) (lex_string cs2))
                | _ \<Rightarrow> None)
             else
               (case simple_escape e of
                  None \<Rightarrow> None
                | Some x \<Rightarrow> map_option (\<lambda>(ps, rest). (Lit x # ps, rest)) (lex_string cs1)))
      else if (of_char c :: nat) < 32 then None
      else map_option (\<lambda>(ps, rest). (Lit c # ps, rest)) (lex_string cs))"


text \<open>
  A number: an optional minus, \<open>0\<close> or digits, an optional fraction, an optional
  exponent.
\<close>

definition lex_digits :: "string \<Rightarrow> (string \<times> string) option" where
  "lex_digits s =
     (if takeWhile isDigit s = [] then None else Some (takeWhile isDigit s, dropWhile isDigit s))"

definition lex_int :: "string \<Rightarrow> (string \<times> string) option" where
  "lex_int s =
     (case s of
        [] \<Rightarrow> None
      | d # r \<Rightarrow> if d = CHR ''0'' then Some ([d], r) else lex_digits s)"

definition lex_frac :: "string \<Rightarrow> (string \<times> string) option" where
  "lex_frac s =
     (case s of
        [] \<Rightarrow> Some ([], s)
      | p # r \<Rightarrow>
          if p = CHR ''.'' then map_option (\<lambda>(ds, rest). (p # ds, rest)) (lex_digits r)
          else Some ([], s))"

definition lex_exp :: "string \<Rightarrow> (string \<times> string) option" where
  "lex_exp s =
     (case s of
        [] \<Rightarrow> Some ([], s)
      | e # r \<Rightarrow>
          if e = CHR ''e'' \<or> e = CHR ''E'' then
            (case r of
               [] \<Rightarrow> None
             | g # r1 \<Rightarrow>
                 if g = CHR ''+'' \<or> g = CHR ''-''
                 then map_option (\<lambda>(ds, rest). (e # g # ds, rest)) (lex_digits r1)
                 else map_option (\<lambda>(ds, rest). (e # ds, rest)) (lex_digits r))
          else Some ([], s))"

definition lex_number :: "string \<Rightarrow> (string \<times> string) option" where
  "lex_number s =
     (let (sign, r0) = (case s of [] \<Rightarrow> ([], s) | m # r \<Rightarrow> if m = CHR ''-'' then ([m], r) else ([], s))
      in case lex_int r0 of
           None \<Rightarrow> None
         | Some (i, r1) \<Rightarrow>
             (case lex_frac r1 of
                None \<Rightarrow> None
              | Some (f, r2) \<Rightarrow>
                  (case lex_exp r2 of
                     None \<Rightarrow> None
                   | Some (x, r3) \<Rightarrow> Some (sign @ i @ f @ x, r3))))"

lemma lex_string_length: "lex_string cs = Some (ps, rest) \<Longrightarrow> length rest < length cs"
proof (induction cs arbitrary: ps rest rule: lex_string.induct)
  case 1
  then show ?case by simp
next
  case (2 c cs)
  then show ?case
    by (fastforce split: if_splits list.splits option.splits)
qed

lemma lex_digits_length: "lex_digits s = Some (ds, rest) \<Longrightarrow> length rest < length s"
proof -
  assume a: "lex_digits s = Some (ds, rest)"
  then have "takeWhile isDigit s \<noteq> []" and r: "rest = dropWhile isDigit s"
    by (auto simp: lex_digits_def split: if_splits)
  moreover have "length (takeWhile isDigit s) + length (dropWhile isDigit s) = length s"
    by (metis length_append takeWhile_dropWhile_id)
  ultimately show ?thesis
    by (cases "takeWhile isDigit s") auto
qed

lemma lex_int_length: "lex_int s = Some (i, rest) \<Longrightarrow> length rest < length s"
  by (auto simp: lex_int_def split: list.splits if_splits dest: lex_digits_length)

lemma lex_frac_length: "lex_frac s = Some (f, rest) \<Longrightarrow> length rest \<le> length s"
  by (auto simp: lex_frac_def split: list.splits if_splits dest!: lex_digits_length)

lemma lex_exp_length: "lex_exp s = Some (x, rest) \<Longrightarrow> length rest \<le> length s"
  by (auto simp: lex_exp_def split: list.splits if_splits dest!: lex_digits_length)

lemma lex_number_length: "lex_number s = Some (n, rest) \<Longrightarrow> length rest < length s"
proof -
  assume a: "lex_number s = Some (n, rest)"
  obtain sign r0 where s: "(case s of [] \<Rightarrow> ([], s) | m # r \<Rightarrow> if m = CHR ''-'' then ([m], r) else ([], s)) = (sign, r0)"
    by fastforce
  then have l0: "length r0 \<le> length s"
    by (auto split: list.splits if_splits)
  from a s obtain i r1 f r2 x where "lex_int r0 = Some (i, r1)" "lex_frac r1 = Some (f, r2)"
      "lex_exp r2 = Some (x, rest)"
    by (auto simp: lex_number_def split: option.splits)
  then have "length r1 < length r0" "length r2 \<le> length r1" "length rest \<le> length r2"
    by (auto dest: lex_int_length lex_frac_length lex_exp_length)
  with l0 show ?thesis
    by simp
qed

definition isJSONWhiteSpace :: "char \<Rightarrow> bool" where
  "isJSONWhiteSpace c = (c = CHR 0x20 \<or> c = CHR 0x09 \<or> c = CHR 0x0A \<or> c = CHR 0x0D)"

definition punctuator :: "char \<Rightarrow> token option" where
  "punctuator c =
     (if c = CHR ''{'' then Some TLBrace
      else if c = CHR ''}'' then Some TRBrace
      else if c = CHR ''['' then Some TLBracket
      else if c = CHR '']'' then Some TRBracket
      else if c = CHR '':'' then Some TColon
      else if c = CHR '','' then Some TComma
      else None)"

definition lex_literal :: "string \<Rightarrow> (token \<times> string) option" where
  "lex_literal s =
     (if prefix ''true'' s then Some (TTrue, drop 4 s)
      else if prefix ''false'' s then Some (TFalse, drop 5 s)
      else if prefix ''null'' s then Some (TNull, drop 4 s)
      else None)"

definition lex_token :: "char \<Rightarrow> string \<Rightarrow> (token \<times> string) option" where
  "lex_token c cs =
     (if c = CHR 0x22 then map_option (\<lambda>(ps, rest). (TString (decode_pieces ps), rest)) (lex_string cs)
      else if c = CHR ''-'' \<or> isDigit c then map_option (\<lambda>(n, rest). (TNumber n, rest)) (lex_number (c # cs))
      else lex_literal (c # cs))"

lemma lex_literal_length: "lex_literal s = Some (t, rest) \<Longrightarrow> length rest < length s"
  by (auto simp: lex_literal_def prefix_def split: if_splits)

lemma lex_token_length: "lex_token c cs = Some (t, rest) \<Longrightarrow> length rest < Suc (length cs)"
proof (cases "c = CHR 0x22")
  case True
  assume "lex_token c cs = Some (t, rest)"
  with True obtain ps where "lex_string cs = Some (ps, rest)"
    by (auto simp: lex_token_def)
  then show ?thesis
    using lex_string_length by fastforce
next
  case False
  assume a: "lex_token c cs = Some (t, rest)"
  show ?thesis
  proof (cases "c = CHR ''-'' \<or> isDigit c")
    case True
    with a False obtain n where "lex_number (c # cs) = Some (n, rest)"
      by (auto simp: lex_token_def)
    then show ?thesis
      using lex_number_length by fastforce
  next
    case n: False
    with a False have "lex_literal (c # cs) = Some (t, rest)"
      by (simp add: lex_token_def)
    then show ?thesis
      using lex_literal_length by fastforce
  qed
qed

function tokenize :: "string \<Rightarrow> token list option" where
  "tokenize [] = Some []"
| "tokenize (c # cs) =
     (if isJSONWhiteSpace c then tokenize cs
      else case punctuator c of
        Some t \<Rightarrow> map_option (Cons t) (tokenize cs)
      | None \<Rightarrow>
          (case lex_token c cs of
             None \<Rightarrow> None
           | Some (t, rest) \<Rightarrow> map_option (Cons t) (tokenize rest)))"
  by pat_completeness auto
termination
proof (relation "measure length")
  show "wf (measure length)"
    by simp
next
  fix c :: char and cs :: string
  show "(cs, c # cs) \<in> measure length"
    by simp
next
  fix c :: char and cs :: string and t :: token
  show "(cs, c # cs) \<in> measure length"
    by simp
next
  fix c :: char and cs :: string and x2 :: "token \<times> string" and t :: token and rest :: string
  assume "lex_token c cs = Some x2" "(t, rest) = x2"
  then show "(rest, c # cs) \<in> measure length"
    using lex_token_length [of c cs t rest] by simp
qed

text \<open>
  The automaton. The stack holds the arrays and objects that are open, each with
  the elements or members read so far; \<open>FKey\<close> is an object whose next member has
  its key. A repeated key keeps its place and takes the later value, as a
  JavaScript object does. The order that JavaScript gives to keys that are array
  indices is not modelled.
\<close>

datatype frame =
    FArr "json list"
  | FObj "(string \<times> json) list"
  | FKey "(string \<times> json) list" string

datatype pstate =
    PValue
  | PArrFirst
  | PArrNext
  | PObjFirst
  | PObjKey
  | PObjColon
  | PObjNext
  | PDone json

fun obj_put :: "(string \<times> json) list \<Rightarrow> string \<Rightarrow> json \<Rightarrow> (string \<times> json) list" where
  "obj_put [] k v = [(k, v)]"
| "obj_put ((k', v') # kvs) k v = (if k' = k then (k, v) # kvs else (k', v') # obj_put kvs k v)"

fun push_value :: "json \<Rightarrow> frame list \<Rightarrow> (pstate \<times> frame list) option" where
  "push_value v [] = Some (PDone v, [])"
| "push_value v (FArr xs # st) = Some (PArrNext, FArr (xs @ [v]) # st)"
| "push_value v (FKey kvs k # st) = Some (PObjNext, FObj (obj_put kvs k v) # st)"
| "push_value v (FObj kvs # st) = None"

fun start_value :: "token \<Rightarrow> frame list \<Rightarrow> (pstate \<times> frame list) option" where
  "start_value TLBracket st = Some (PArrFirst, FArr [] # st)"
| "start_value TLBrace st = Some (PObjFirst, FObj [] # st)"
| "start_value (TString s) st = push_value (JStr s) st"
| "start_value (TNumber n) st = push_value (JNum n) st"
| "start_value TTrue st = push_value (JBool True) st"
| "start_value TFalse st = push_value (JBool False) st"
| "start_value TNull st = push_value JNull st"
| "start_value t st = None"

fun close_array :: "frame list \<Rightarrow> (pstate \<times> frame list) option" where
  "close_array (FArr xs # st) = push_value (JArr xs) st"
| "close_array st = None"

fun close_object :: "frame list \<Rightarrow> (pstate \<times> frame list) option" where
  "close_object (FObj kvs # st) = push_value (JObj kvs) st"
| "close_object st = None"

fun start_key :: "string \<Rightarrow> frame list \<Rightarrow> (pstate \<times> frame list) option" where
  "start_key k (FObj kvs # st) = Some (PObjColon, FKey kvs k # st)"
| "start_key k st = None"

fun parse_step :: "pstate \<Rightarrow> frame list \<Rightarrow> token \<Rightarrow> (pstate \<times> frame list) option" where
  "parse_step PValue st t = start_value t st"
| "parse_step PArrFirst st t = (if t = TRBracket then close_array st else start_value t st)"
| "parse_step PArrNext st t =
     (if t = TComma then Some (PValue, st) else if t = TRBracket then close_array st else None)"
| "parse_step PObjFirst st t =
     (case t of TRBrace \<Rightarrow> close_object st | TString k \<Rightarrow> start_key k st | _ \<Rightarrow> None)"
| "parse_step PObjKey st t = (case t of TString k \<Rightarrow> start_key k st | _ \<Rightarrow> None)"
| "parse_step PObjColon st t = (if t = TColon then Some (PValue, st) else None)"
| "parse_step PObjNext st t =
     (if t = TComma then Some (PObjKey, st) else if t = TRBrace then close_object st else None)"
| "parse_step (PDone v) st t = None"

fun parse_tokens :: "pstate \<Rightarrow> frame list \<Rightarrow> token list \<Rightarrow> json option" where
  "parse_tokens (PDone v) [] [] = Some v"
| "parse_tokens p st [] = None"
| "parse_tokens p st (t # ts) =
     (case parse_step p st t of None \<Rightarrow> None | Some (p', st') \<Rightarrow> parse_tokens p' st' ts)"

definition JSON_parse :: "string \<Rightarrow> json option" where
  "JSON_parse s = (case tokenize s of None \<Rightarrow> None | Some ts \<Rightarrow> parse_tokens PValue [] ts)"

subsection \<open>What \<open>JSON.stringify\<close> writes, for the round trip\<close>

text \<open>
  Definitions for the proof that \<open>JSON.parse\<close> reads back what \<open>JSON.stringify\<close>
  writes: the piece that the lexer reads for a character as \<open>QuoteJSONString\<close>
  writes it, the tokens of a value, the values the proof covers (no number, no
  repeated key: the values of stores), and the parser continued after a step.
\<close>

definition piece_of :: "char \<Rightarrow> piece" where
  "piece_of c =
     (if c = CHR 0x08 \<or> c = CHR 0x09 \<or> c = CHR 0x0A \<or> c = CHR 0x0C \<or> c = CHR 0x0D
         \<or> c = CHR 0x22 \<or> c = CHR 0x5C then Lit c
      else if (of_char c :: nat) < 32 then Esc (of_char c)
      else Lit c)"

fun tokens_of :: "json \<Rightarrow> token list"
  and tokens_elements :: "json list \<Rightarrow> token list"
  and tokens_members :: "(string \<times> json) list \<Rightarrow> token list" where
  "tokens_of JNull = [TNull]"
| "tokens_of (JBool b) = [if b then TTrue else TFalse]"
| "tokens_of (JNum n) = [TNumber n]"
| "tokens_of (JStr s) = [TString s]"
| "tokens_of (JArr xs) = TLBracket # tokens_elements xs @ [TRBracket]"
| "tokens_of (JObj kvs) = TLBrace # tokens_members kvs @ [TRBrace]"
| "tokens_elements [] = []"
| "tokens_elements (x # xs) = tokens_of x @ (if xs = [] then [] else TComma # tokens_elements xs)"
| "tokens_members [] = []"
| "tokens_members ((k, v) # kvs) =
     TString k # TColon # tokens_of v @ (if kvs = [] then [] else TComma # tokens_members kvs)"

fun storable :: "json \<Rightarrow> bool"
  and storable_elements :: "json list \<Rightarrow> bool"
  and storable_members :: "(string \<times> json) list \<Rightarrow> bool" where
  "storable JNull = True"
| "storable (JBool b) = True"
| "storable (JNum n) = False"
| "storable (JStr s) = True"
| "storable (JArr xs) = storable_elements xs"
| "storable (JObj kvs) = (distinct (map fst kvs) \<and> storable_members kvs)"
| "storable_elements [] = True"
| "storable_elements (x # xs) = (storable x \<and> storable_elements xs)"
| "storable_members [] = True"
| "storable_members ((k, v) # kvs) = (storable v \<and> storable_members kvs)"

definition parse_rest :: "(pstate \<times> frame list) option \<Rightarrow> token list \<Rightarrow> json option" where
  "parse_rest r ts = (case r of None \<Rightarrow> None | Some (p, st) \<Rightarrow> parse_tokens p st ts)"

subsection \<open>The store as a JSON value\<close>

text \<open>
  The JavaScript object of a store. A property whose value is undefined is not
  written by \<open>JSON.stringify\<close>, so an absent \<open>details\<close> gives no member. The
  members stand in the order of \<open>DEFAULT_MEMORY\<close>, which the spread in \<open>onSave\<close>
  keeps. A record has neither an order of its fields nor fields beyond those of
  \<open>types.ts\<close>: an object loaded with its members in another order, or with more
  members, is outside this view.
\<close>

definition MemoryValue_json :: "MemoryValue \<Rightarrow> json" where
  "MemoryValue_json v =
     JObj ((''description'', JStr (description v)) #
           (case details v of None \<Rightarrow> [] | Some ds \<Rightarrow> [(''details'', JArr (map JStr ds))]))"

definition MemoryItem_json :: "MemoryItem \<Rightarrow> json" where
  "MemoryItem_json i =
     JObj [(''id'', JStr (MemoryItem.id i)), (''timestamp'', JStr (MemoryItem.timestamp i)),
           (''value'', MemoryValue_json (value i))]"

definition MemoryStore_json :: "MemoryStore \<Rightarrow> json" where
  "MemoryStore_json m =
     JObj [(''struggles'', JArr (map MemoryItem_json (struggles m))),
           (''development'', JArr (map MemoryItem_json (development m))),
           (''mindset'', JArr (map MemoryItem_json (mindset m)))]"

section \<open>The application state (App)\<close>

definition DEFAULT_MEMORY :: MemoryStore where
  "DEFAULT_MEMORY = \<lparr>struggles = [], development = [], mindset = []\<rparr>"

text \<open>
  The state of \<open>App\<close> that the memory store and the chat read or write, and the
  browser's \<open>localStorage\<close>. The state of the views alone (theme, permissions,
  active screen, modal) is left out.
\<close>

record App =
  memory :: MemoryStore
  journalFilter :: JournalFilter
  journalSearchQuery :: string
  chatMessages :: "ChatMessage list"
  inputMessage :: string
  isChatLoading :: bool
  localStorage :: "string \<rightharpoonup> string"

text \<open>
  The initial values of the \<open>useState\<close> hooks. \<open>now\<close> is \<open>Date.now()\<close> at the
  first render, \<open>ls\<close> is what the browser holds in \<open>localStorage\<close>.
\<close>

definition App_init :: "nat \<Rightarrow> (string \<rightharpoonup> string) \<Rightarrow> App" where
  "App_init now ls =
     \<lparr>memory = DEFAULT_MEMORY, journalFilter = All, journalSearchQuery = [],
      chatMessages = [\<lparr>ChatMessage.id = ''welcome'', role = model,
                       text = ''Systems online. Lucy ready.'', timestamp = now\<rparr>],
      inputMessage = [], isChatLoading = False, localStorage = ls\<rparr>"

text \<open>\<open>memory[cat]\<close> and \<open>{ ...memory, [c]: items }\<close>.\<close>

fun memory_get :: "MemoryStore \<Rightarrow> Category \<Rightarrow> MemoryItem list" where
  "memory_get m Struggles = struggles m"
| "memory_get m Development = development m"
| "memory_get m Mindset = mindset m"

fun memory_put :: "MemoryStore \<Rightarrow> Category \<Rightarrow> MemoryItem list \<Rightarrow> MemoryStore" where
  "memory_put m Struggles xs = m\<lparr>struggles := xs\<rparr>"
| "memory_put m Development xs = m\<lparr>development := xs\<rparr>"
| "memory_put m Mindset xs = m\<lparr>mindset := xs\<rparr>"

subsection \<open>Adding a record: the \<open>onSave\<close> callback\<close>

text \<open>
  \<open>uuid\<close> is the result of \<open>crypto.randomUUID()\<close> and \<open>now\<close> that of
  \<open>new Date().toISOString()\<close>. The callback builds the item, prepends it to the
  list of its category, sets the state and writes the whole store through to
  \<open>localStorage\<close>. This is the store's operation to add a record. It has no
  check of the description or of the details and no failing branch: its result is
  always a state. The form that calls it, \<open>components/MemoryEntryModal\<close>, is
  not among the sources.
\<close>

definition onSave :: "string \<Rightarrow> string \<Rightarrow> Category \<Rightarrow> string \<Rightarrow> string list \<Rightarrow> App \<Rightarrow> App" where
  "onSave uuid now c d det st =
     (let newItem = \<lparr>MemoryItem.id = uuid, timestamp = now,
                      value = \<lparr>description = d, details = Some det\<rparr>\<rparr>;
          updated = memory_put (memory st) c (newItem # memory_get (memory st) c)
      in st\<lparr>memory := updated,
            localStorage := (localStorage st)(''lucy_memory'' \<mapsto> JSON_stringify (MemoryStore_json updated))\<rparr>)"

definition queryAll :: "App \<Rightarrow> MemoryStore" where
  "queryAll st = memory st"

subsection \<open>The journal: category filter and search (renderJournal)\<close>

text \<open>
  The callback of \<open>memory[cat].filter\<close>. \<open>inDetails\<close> is undefined (\<open>None\<close>) when
  the record has no \<open>details\<close>; \<open>inDesc || inDetails\<close> is then \<open>inDesc\<close> when
  that is true and undefined otherwise, and \<open>filter\<close> keeps an item whose result
  is truthy.
\<close>

definition js_or :: "bool \<Rightarrow> bool option \<Rightarrow> bool option" where
  "js_or a b = (if a then Some True else b)"

definition truthy :: "bool option \<Rightarrow> bool" where
  "truthy r = (case r of None \<Rightarrow> False | Some b \<Rightarrow> b)"

definition item_matches :: "(string \<Rightarrow> string) \<Rightarrow> string \<Rightarrow> MemoryItem \<Rightarrow> bool" where
  "item_matches toLowerCase query item =
     (if query = [] then True
      else let q = toLowerCase query;
               inDesc = str_includes (toLowerCase (description (value item))) q;
               inDetails = map_option (list_ex (\<lambda>d. str_includes (toLowerCase d) q)) (details (value item))
           in truthy (js_or inDesc inDetails))"

definition filteredItems :: "(string \<Rightarrow> string) \<Rightarrow> MemoryStore \<Rightarrow> string \<Rightarrow> Category \<Rightarrow> MemoryItem list" where
  "filteredItems toLowerCase m q cat = filter (item_matches toLowerCase q) (memory_get m cat)"

text \<open>
  The cards of the journal, in the order they are rendered: the categories
  \<open>development\<close>, \<open>mindset\<close>, \<open>struggles\<close> that pass the filter, each with its
  filtered items. A category with no filtered item renders no card.
\<close>

definition shown_categories :: "JournalFilter \<Rightarrow> Category list" where
  "shown_categories f = filter (\<lambda>cat. f = All \<or> f = Only cat) [Development, Mindset, Struggles]"

definition journal_cards :: "(string \<Rightarrow> string) \<Rightarrow> MemoryStore \<Rightarrow> JournalFilter \<Rightarrow> string \<Rightarrow> (Category \<times> MemoryItem) list" where
  "journal_cards toLowerCase m f q =
     concat (map (\<lambda>cat. map (Pair cat) (filteredItems toLowerCase m q cat)) (shown_categories f))"

definition renderJournal :: "(string \<Rightarrow> string) \<Rightarrow> App \<Rightarrow> (Category \<times> MemoryItem) list" where
  "renderJournal toLowerCase st = journal_cards toLowerCase (memory st) (journalFilter st) (journalSearchQuery st)"

text \<open>
  The two queries of the store are the journal with a filter and an empty search
  box, and the journal with a filter and a query.
\<close>

definition filterByCategory :: "(string \<Rightarrow> string) \<Rightarrow> JournalFilter \<Rightarrow> App \<Rightarrow> (Category \<times> MemoryItem) list" where
  "filterByCategory toLowerCase f st = renderJournal toLowerCase (st\<lparr>journalFilter := f, journalSearchQuery := []\<rparr>)"

definition search :: "(string \<Rightarrow> string) \<Rightarrow> string \<Rightarrow> App \<Rightarrow> (Category \<times> MemoryItem) list" where
  "search toLowerCase q st = renderJournal toLowerCase (st\<lparr>journalSearchQuery := q\<rparr>)"

text \<open>
  The check under the list, for the message that no memory was found: the search
  box is not empty and in each category no item passes the same test, written
  there without the shortcut for the empty query.
\<close>

definition global_item_matches :: "(string \<Rightarrow> string) \<Rightarrow> string \<Rightarrow> MemoryItem \<Rightarrow> bool" where
  "global_item_matches toLowerCase query item =
     truthy (js_or
       (str_includes (toLowerCase (description (value item))) (toLowerCase query))
       (map_option (list_ex (\<lambda>d. str_includes (toLowerCase d) (toLowerCase query)))
          (details (value item))))"

definition global_empty_state :: "(string \<Rightarrow> string) \<Rightarrow> App \<Rightarrow> bool" where
  "global_empty_state toLowerCase st =
     (journalSearchQuery st \<noteq> [] \<and>
      list_all (\<lambda>cat.
          length (filter (global_item_matches toLowerCase (journalSearchQuery st)) (memory_get (memory st) cat)) = 0)
        [Development, Mindset, Struggles])"

subsection \<open>The search as the specification words it\<close>

text \<open>
  A string contains a query case-insensitively when its lower-case form contains
  the query's lower-case form. An item matches when its description does or some
  entry of its details does; an item without details has no entry. The filter
  \<open>all\<close> keeps every category and the filter of a category keeps that category
  alone. The search is the items of the store that are in a category the filter
  keeps and that match, grouped by category in the order development, mindset,
  struggles, each group in the order of the store. None of this refers to the
  definitions of the journal above.
\<close>

definition contains_ci :: "(string \<Rightarrow> string) \<Rightarrow> string \<Rightarrow> string \<Rightarrow> bool" where
  "contains_ci toLowerCase s q = str_includes (toLowerCase s) (toLowerCase q)"

definition details_entries :: "MemoryItem \<Rightarrow> string list" where
  "details_entries item = (case details (value item) of None \<Rightarrow> [] | Some ds \<Rightarrow> ds)"

definition matches_spec :: "(string \<Rightarrow> string) \<Rightarrow> string \<Rightarrow> MemoryItem \<Rightarrow> bool" where
  "matches_spec toLowerCase q item =
     (contains_ci toLowerCase (description (value item)) q
      \<or> list_ex (\<lambda>d. contains_ci toLowerCase d q) (details_entries item))"

fun filter_keeps :: "JournalFilter \<Rightarrow> Category \<Rightarrow> bool" where
  "filter_keeps All cat = True"
| "filter_keeps (Only c) cat = (cat = c)"

definition items_spec :: "MemoryStore \<Rightarrow> Category \<Rightarrow> MemoryItem list" where
  "items_spec m cat =
     (case cat of Struggles \<Rightarrow> struggles m | Development \<Rightarrow> development m | Mindset \<Rightarrow> mindset m)"

definition group_spec ::
  "(string \<Rightarrow> string) \<Rightarrow> string \<Rightarrow> JournalFilter \<Rightarrow> MemoryStore \<Rightarrow> Category \<Rightarrow> (Category \<times> MemoryItem) list" where
  "group_spec toLowerCase q f m cat =
     (if filter_keeps f cat
      then map (Pair cat) (filter (matches_spec toLowerCase q) (items_spec m cat))
      else [])"

definition search_spec :: "(string \<Rightarrow> string) \<Rightarrow> string \<Rightarrow> App \<Rightarrow> (Category \<times> MemoryItem) list" where
  "search_spec toLowerCase q st =
     group_spec toLowerCase q (journalFilter st) (memory st) Development
     @ group_spec toLowerCase q (journalFilter st) (memory st) Mindset
     @ group_spec toLowerCase q (journalFilter st) (memory st) Struggles"

section \<open>Loading the store at start\<close>

text \<open>
  The first statements of the effect that runs once after the first render:
  \<open>storedMemory\<close> is the result of \<open>localStorage.getItem('lucy_memory')\<close>, \<open>None\<close>
  when there is no such key. A falsy result (no key, or the empty string) leaves
  the state at \<open>DEFAULT_MEMORY\<close>; any other text goes to \<open>JSON.parse\<close>, outside
  any \<open>try\<close>, and the result is set as the state without a check. The result is
  the value of the state \<open>memory\<close> after the effect, as a JSON value
  (\<open>MemoryStore_json m\<close> for a store \<open>m\<close>), or the error raised.
\<close>

datatype error = SyntaxError

definition load :: "string option \<Rightarrow> error + json" where
  "load storedMemory =
     (case storedMemory of
        None \<Rightarrow> Inr (MemoryStore_json DEFAULT_MEMORY)
      | Some s \<Rightarrow>
          if s = [] then Inr (MemoryStore_json DEFAULT_MEMORY)
          else (case JSON_parse s of None \<Rightarrow> Inl SyntaxError | Some parsed \<Rightarrow> Inr parsed))"

section \<open>The validation of a new record\<close>

text \<open>
  Modelled from the spec: the validation of a new record, which is no part of
  \<open>onSave\<close> and must be done by its only caller, the record-entry form
  \<open>components/MemoryEntryModal\<close>; the form is not among the sources. Section 4.1:
  the description must be non-empty after trimming before a record may be
  created; the entries of the details are each trimmed and the empty ones
  dropped. Section 4.2: \<open>addRecord\<close> fails with \<open>ValidationError\<close> if the
  description is empty after trim, and otherwise constructs the item, prepends
  it, persists the store and returns the created item. Section 7: on the error
  the store is left unmodified. What follows the validation is \<open>onSave\<close>, from
  the source.
\<close>

datatype validation_error = ValidationError

definition clean_details :: "(string \<Rightarrow> string) \<Rightarrow> string list \<Rightarrow> string list" where
  "clean_details trim det = filter (\<lambda>d. d \<noteq> []) (map trim det)"

definition addRecord ::
  "(string \<Rightarrow> string) \<Rightarrow> string \<Rightarrow> string \<Rightarrow> Category \<Rightarrow> string \<Rightarrow> string list \<Rightarrow> App
     \<Rightarrow> (validation_error + MemoryItem) \<times> App" where
  "addRecord trim uuid now c d det st =
     (if trim d = [] then (Inl ValidationError, st)
      else (Inr \<lparr>MemoryItem.id = uuid, timestamp = now,
                 value = \<lparr>description = d, details = Some (clean_details trim det)\<rparr>\<rparr>,
            onSave uuid now c d (clean_details trim det) st))"

section \<open>The chat controller\<close>

text \<open>
  \<open>handleSendMessage\<close> is an async function. Its part before the \<open>await\<close> runs
  in the event handler: the guard, the echo of the user's message, the clearing of
  the input and the loading flag, and the call of the backend with the message
  text and the memory store. \<open>uuid\<close> is \<open>crypto.randomUUID()\<close>, \<open>now\<close> is
  \<open>Date.now()\<close>. The result is the new state and the request issued, if any.
  \<open>!inputMessage.trim()\<close> holds exactly when the trimmed input is the empty
  string.
\<close>

datatype outcome = Fulfilled string | Rejected string

definition handleSendMessage :: "(string \<Rightarrow> string) \<Rightarrow> string \<Rightarrow> nat \<Rightarrow> App \<Rightarrow> App \<times> (string \<times> MemoryStore) option" where
  "handleSendMessage trim uuid now st =
     (if trim (inputMessage st) = [] \<or> isChatLoading st then (st, None)
      else let userMsg = \<lparr>ChatMessage.id = uuid, role = user, text = inputMessage st, timestamp = now\<rparr>
           in (st\<lparr>chatMessages := chatMessages st @ [userMsg], inputMessage := [], isChatLoading := True\<rparr>,
               Some (text userMsg, memory st)))"

text \<open>
  The part after the \<open>await\<close> runs when the promise of the backend settles: the
  \<open>try\<close> branch on a response, the \<open>catch\<close> branch on any error (the error is
  not read), then \<open>finally\<close>.
\<close>

definition handleSendMessage_settled :: "outcome \<Rightarrow> string \<Rightarrow> nat \<Rightarrow> App \<Rightarrow> App" where
  "handleSendMessage_settled result uuid now st =
     (let reply = (case result of
                     Fulfilled responseText \<Rightarrow>
                       \<lparr>ChatMessage.id = uuid, role = model, text = responseText, timestamp = now\<rparr>
                   | Rejected error \<Rightarrow>
                       \<lparr>ChatMessage.id = uuid, role = model, text = ''Connection Error.'', timestamp = now\<rparr>)
      in st\<lparr>chatMessages := chatMessages st @ [reply], isChatLoading := False\<rparr>)"

subsection \<open>Sessions: the events of the application\<close>

text \<open>
  A session is the state of \<open>App\<close> and the requests the backend has received and
  not yet answered. An event is one handler run by the browser: typing in the
  chat input, pressing Send, the settling of the oldest open request, saving a
  record, and setting the journal's filter or query. \<open>Settle\<close> cannot fire when
  no request is open.
\<close>

record Session =
  app :: App
  inflight :: "(string \<times> MemoryStore) list"

datatype Event =
    SetInputMessage string
  | SendMessage string nat
  | Settle outcome string nat
  | Save string string Category string "string list"
  | SetJournalFilter JournalFilter
  | SetJournalSearchQuery string

fun fire :: "(string \<Rightarrow> string) \<Rightarrow> Event \<Rightarrow> Session \<Rightarrow> Session option" where
  "fire trim (SetInputMessage s) w = Some (w\<lparr>app := (app w)\<lparr>inputMessage := s\<rparr>\<rparr>)"
| "fire trim (SendMessage uuid now) w =
     (case handleSendMessage trim uuid now (app w) of
        (a, None) \<Rightarrow> Some (w\<lparr>app := a\<rparr>)
      | (a, Some request) \<Rightarrow> Some \<lparr>app = a, inflight = inflight w @ [request]\<rparr>)"
| "fire trim (Settle result uuid now) w =
     (case inflight w of
        [] \<Rightarrow> None
      | request # rest \<Rightarrow> Some \<lparr>app = handleSendMessage_settled result uuid now (app w), inflight = rest\<rparr>)"
| "fire trim (Save uuid now c d det) w = Some (w\<lparr>app := onSave uuid now c d det (app w)\<rparr>)"
| "fire trim (SetJournalFilter f) w = Some (w\<lparr>app := (app w)\<lparr>journalFilter := f\<rparr>\<rparr>)"
| "fire trim (SetJournalSearchQuery q) w = Some (w\<lparr>app := (app w)\<lparr>journalSearchQuery := q\<rparr>\<rparr>)"

fun run :: "(string \<Rightarrow> string) \<Rightarrow> Event list \<Rightarrow> Session \<Rightarrow> Session option" where
  "run trim [] w = Some w"
| "run trim (e # es) w = (case fire trim e w of None \<Rightarrow> None | Some w' \<Rightarrow> run trim es w')"

definition Session_init :: "nat \<Rightarrow> (string \<rightharpoonup> string) \<Rightarrow> MemoryStore \<Rightarrow> Session" where
  "Session_init now ls m = \<lparr>app = (App_init now ls)\<lparr>memory := m\<rparr>, inflight = []\<rparr>"

text \<open>
  Role lists: \<open>turns\<close> holds of \<open>user, model, user, model, ...\<close> with every user
  message answered, \<open>turns_open\<close> of such a list followed by one more \<open>user\<close>.
\<close>

fun turns :: "Role list \<Rightarrow> bool" where
  "turns [] = True"
| "turns (user # model # rs) = turns rs"
| "turns rs = False"

fun turns_open :: "Role list \<Rightarrow> bool" where
  "turns_open [user] = True"
| "turns_open (user # model # rs) = turns_open rs"
| "turns_open rs = False"

definition greeting :: "ChatMessage \<Rightarrow> bool" where
  "greeting g = (ChatMessage.id g = ''welcome'' \<and> role g = model \<and> text g = ''Systems online. Lucy ready.'')"

definition chat_inv :: "Session \<Rightarrow> bool" where
  "chat_inv w =
     (case chatMessages (app w) of
        [] \<Rightarrow> False
      | g # ms \<Rightarrow> greeting g \<and>
          (if isChatLoading (app w) then length (inflight w) = 1 \<and> turns_open (map role ms)
           else inflight w = [] \<and> turns (map role ms)))"


subsection \<open>The built-ins at the examples\<close>

text \<open>
  The examples need the two string methods at concrete texts. \<open>trim_utf8\<close> is
  \<open>trim\<close> on UTF-8 text: it removes, at both ends, the encodings of the white
  space and line terminator code points of ECMA-262 (TAB, LF, VT, FF, CR, SP,
  NBSP, U+1680, U+2000 to U+200A, LS, PS, U+202F, U+205F, U+3000 and the byte
  order mark U+FEFF), listed in \<open>WhiteSpace_utf8\<close> in this order. \<open>toLowerCase_ascii\<close> is \<open>toLowerCase\<close> on texts of ASCII
  characters, where it changes \<open>A..Z\<close> to \<open>a..z\<close> and nothing else; the texts of
  the examples are such texts. No property is proved of these two functions:
  they only stand for the parameters at the examples.
\<close>

definition WhiteSpace_utf8 :: "string list" where
  "WhiteSpace_utf8 =
     [[CHR 0x09], [CHR 0x0A], [CHR 0x0B], [CHR 0x0C], [CHR 0x0D], [CHR 0x20],
      [CHR 0xC2, CHR 0xA0],
      [CHR 0xE1, CHR 0x9A, CHR 0x80],
      [CHR 0xE2, CHR 0x80, CHR 0x80], [CHR 0xE2, CHR 0x80, CHR 0x81],
      [CHR 0xE2, CHR 0x80, CHR 0x82], [CHR 0xE2, CHR 0x80, CHR 0x83],
      [CHR 0xE2, CHR 0x80, CHR 0x84], [CHR 0xE2, CHR 0x80, CHR 0x85],
      [CHR 0xE2, CHR 0x80, CHR 0x86], [CHR 0xE2, CHR 0x80, CHR 0x87],
      [CHR 0xE2, CHR 0x80, CHR 0x88], [CHR 0xE2, CHR 0x80, CHR 0x89],
      [CHR 0xE2, CHR 0x80, CHR 0x8A],
      [CHR 0xE2, CHR 0x80, CHR 0xA8], [CHR 0xE2, CHR 0x80, CHR 0xA9],
      [CHR 0xE2, CHR 0x80, CHR 0xAF],
      [CHR 0xE2, CHR 0x81, CHR 0x9F],
      [CHR 0xE3, CHR 0x80, CHR 0x80],
      [CHR 0xEF, CHR 0xBB, CHR 0xBF]]"

function strip_start :: "string list \<Rightarrow> string \<Rightarrow> string" where
  "strip_start ws s =
     (case find (\<lambda>w. w \<noteq> [] \<and> prefix w s) ws of
        None \<Rightarrow> s
      | Some w \<Rightarrow> strip_start ws (drop (length w) s))"
  by pat_completeness auto
termination
proof (relation "measure (\<lambda>(ws, s). length s)")
  show "wf (measure (\<lambda>(ws, s). length s))"
    by simp
next
  fix ws :: "string list" and s w :: string
  assume "find (\<lambda>w. w \<noteq> [] \<and> prefix w s) ws = Some w"
  then have "w \<noteq> []" and "prefix w s"
    by (auto simp: find_Some_iff)
  then obtain r where "s = w @ r"
    by (auto simp: prefix_def)
  with \<open>w \<noteq> []\<close> show "((ws, drop (length w) s), (ws, s)) \<in> measure (\<lambda>(ws, s). length s)"
    by simp
qed

definition trim_utf8 :: "string \<Rightarrow> string" where
  "trim_utf8 s =
     rev (strip_start (map rev WhiteSpace_utf8) (rev (strip_start WhiteSpace_utf8 s)))"

definition toLowerCase_ascii :: "string \<Rightarrow> string" where
  "toLowerCase_ascii s =
     map (\<lambda>c. if 65 \<le> (of_char c :: nat) \<and> (of_char c :: nat) \<le> 90
              then char_of ((of_char c :: nat) + 32) else c) s"

subsection \<open>Example states\<close>

definition App_example :: App where
  "App_example = App_init 0 Map.empty"

definition legacy_item :: MemoryItem where
  "legacy_item = \<lparr>MemoryItem.id = ''old'', timestamp = ''2024-01-01T00:00:00.000Z'',
                   value = \<lparr>description = ''Morning Routine'', details = None\<rparr>\<rparr>"

definition journal_example :: App where
  "journal_example =
     onSave ''u3'' ''t3'' Mindset ''Evening'' [''MORNING walk'']
       (onSave ''u2'' ''t2'' Struggles ''Sleep'' [''late nights'']
          ((App_init 0 Map.empty)\<lparr>memory := DEFAULT_MEMORY\<lparr>struggles := [legacy_item]\<rparr>\<rparr>))"

definition stored_example :: string where
  "stored_example = JSON_stringify (MemoryStore_json (memory journal_example))"

definition awaiting_example :: App where
  "awaiting_example =
     fst (handleSendMessage trim_utf8 ''u1'' 1 (App_example\<lparr>inputMessage := ''hello''\<rparr>))"

definition example_events :: "Event list" where
  "example_events =
     [SetInputMessage ''hello'', SendMessage ''u1'' 1, SendMessage ''u2'' 2,
      Settle (Fulfilled ''Hi there'') ''u3'' 3,
      SetInputMessage [CHR 0xC2, CHR 0xA0], SendMessage ''u6'' 6,
      SetInputMessage ''more'', SendMessage ''u4'' 4, Settle (Rejected ''offline'') ''u5'' 5]"

section \<open>Properties of the memory store\<close>

lemma memory_get_put_same: "memory_get (memory_put m c xs) c = xs"
  by (cases c) simp_all

lemma memory_get_put_other: "c' \<noteq> c \<Longrightarrow> memory_get (memory_put m c xs) c' = memory_get m c'"
  by (cases c; cases c') simp_all

lemma memory_onSave:
  "memory (onSave uuid now c d det st) =
     memory_put (memory st) c
       (\<lparr>MemoryItem.id = uuid, timestamp = now, value = \<lparr>description = d, details = Some det\<rparr>\<rparr>
        # memory_get (memory st) c)"
  by (simp add: onSave_def Let_def)

lemma shown_categories_All: "shown_categories All = [Development, Mindset, Struggles]"
  by (simp add: shown_categories_def)

lemma shown_categories_Only: "shown_categories (Only c) = [c]"
  by (cases c) (simp_all add: shown_categories_def)

lemma item_matches_empty: "item_matches toLowerCase [] item"
  by (simp add: item_matches_def)

lemma filteredItems_empty: "filteredItems toLowerCase m [] cat = memory_get m cat"
  by (simp add: filteredItems_def item_matches_empty)

lemma cards_of_filter_All:
  "filterByCategory toLowerCase All st =
     map (Pair Development) (development (memory st)) @
     map (Pair Mindset) (mindset (memory st)) @
     map (Pair Struggles) (struggles (memory st))"
  by (simp add: filterByCategory_def renderJournal_def journal_cards_def
      shown_categories_All filteredItems_empty)

lemma cards_of_filter_Only:
  "filterByCategory toLowerCase (Only c) st = map (Pair c) (memory_get (memory st) c)"
  by (simp add: filterByCategory_def renderJournal_def journal_cards_def
      shown_categories_Only filteredItems_empty)

text \<open>
  C3. Adding a record and then reading the store: the list of the record's
  category is the new item followed by the old list, so it has exactly one more
  item; the new item carries the description and the details that were given;
  the lists of the two other categories are the old ones. This holds for every
  category, description and details list, and every prior state.
\<close>

theorem addRecord_then_queryAll:
  "memory_get (queryAll (onSave uuid now c d det st)) c =
     \<lparr>MemoryItem.id = uuid, timestamp = now, value = \<lparr>description = d, details = Some det\<rparr>\<rparr>
       # memory_get (queryAll st) c
   \<and> length (memory_get (queryAll (onSave uuid now c d det st)) c)
       = length (memory_get (queryAll st) c) + 1
   \<and> description (value (hd (memory_get (queryAll (onSave uuid now c d det st)) c))) = d
   \<and> details (value (hd (memory_get (queryAll (onSave uuid now c d det st)) c))) = Some det
   \<and> (\<forall>c'. c' \<noteq> c \<longrightarrow>
         memory_get (queryAll (onSave uuid now c d det st)) c' = memory_get (queryAll st) c')"
  by (simp add: queryAll_def memory_onSave memory_get_put_same memory_get_put_other)

theorem addRecord_then_queryAll_witness:
  "memory_get (queryAll (onSave ''u1'' ''t1'' Mindset ''Stay calm'' [''breathe'']
       (App_init 0 Map.empty))) Mindset =
     [\<lparr>MemoryItem.id = ''u1'', timestamp = ''t1'',
       value = \<lparr>description = ''Stay calm'', details = Some [''breathe'']\<rparr>\<rparr>]
   \<and> Struggles \<noteq> Mindset
   \<and> memory_get (queryAll (onSave ''u1'' ''t1'' Mindset ''Stay calm'' [''breathe'']
       (App_init 0 Map.empty))) Struggles = []"
proof -
  note h = addRecord_then_queryAll [of "''u1''" "''t1''" Mindset "''Stay calm''" "[''breathe'']"
      "App_init 0 Map.empty"]
  have new: "memory_get (queryAll (onSave ''u1'' ''t1'' Mindset ''Stay calm'' [''breathe'']
       (App_init 0 Map.empty))) Mindset =
     [\<lparr>MemoryItem.id = ''u1'', timestamp = ''t1'',
       value = \<lparr>description = ''Stay calm'', details = Some [''breathe'']\<rparr>\<rparr>]"
    using h by (simp add: queryAll_def App_init_def DEFAULT_MEMORY_def)
  have ne: "Struggles \<noteq> Mindset"
    by simp
  have "memory_get (queryAll (onSave ''u1'' ''t1'' Mindset ''Stay calm'' [''breathe'']
       (App_init 0 Map.empty))) Struggles = memory_get (queryAll (App_init 0 Map.empty)) Struggles"
    using h ne by blast
  then have other: "memory_get (queryAll (onSave ''u1'' ''t1'' Mindset ''Stay calm'' [''breathe'']
       (App_init 0 Map.empty))) Struggles = []"
    by (simp add: queryAll_def App_init_def DEFAULT_MEMORY_def)
  show ?thesis
    using new ne other by blast
qed

text \<open>
  C4. Newest first: after a record A and then a record B are added to category
  \<open>c\<close>, the journal filtered by \<open>c\<close> shows B, then A, then what it showed before.
  The search box is empty, so \<open>toLowerCase\<close> is not called and may be any function.
\<close>

theorem newest_first:
  "filterByCategory toLowerCase (Only c) (onSave uuidB nowB c ''B'' [] (onSave uuidA nowA c ''A'' [] st)) =
     (c, \<lparr>MemoryItem.id = uuidB, timestamp = nowB, value = \<lparr>description = ''B'', details = Some []\<rparr>\<rparr>)
     # (c, \<lparr>MemoryItem.id = uuidA, timestamp = nowA, value = \<lparr>description = ''A'', details = Some []\<rparr>\<rparr>)
     # filterByCategory toLowerCase (Only c) st"
  by (simp add: cards_of_filter_Only memory_onSave memory_get_put_same)

theorem newest_first_witness:
  "map (\<lambda>(c, i). description (value i))
     (filterByCategory toLowerCase_ascii (Only Struggles)
        (onSave ''u2'' ''t2'' Struggles ''B'' [] (onSave ''u1'' ''t1'' Struggles ''A'' []
           (App_init 0 Map.empty)))) = [''B'', ''A'']"
  using newest_first [of toLowerCase_ascii Struggles "''u2''" "''t2''" "''u1''" "''t1''"
      "App_init 0 Map.empty"]
  by (simp add: cards_of_filter_Only App_init_def DEFAULT_MEMORY_def)

text \<open>
  C5. With the filter \<open>all\<close> the journal shows the items of development, then
  those of mindset, then those of struggles, each list in its own order; their
  number is the sum of the three lengths. The search box is empty, so
  \<open>toLowerCase\<close> is not called and may be any function.
\<close>

theorem filterByCategory_all:
  "filterByCategory toLowerCase All st =
     map (Pair Development) (development (memory st)) @
     map (Pair Mindset) (mindset (memory st)) @
     map (Pair Struggles) (struggles (memory st))
   \<and> length (filterByCategory toLowerCase All st) =
       length (memory_get (memory st) Struggles) + length (memory_get (memory st) Development)
       + length (memory_get (memory st) Mindset)"
  by (simp add: cards_of_filter_All)

theorem filterByCategory_all_witness:
  "map fst (filterByCategory toLowerCase_ascii All
     (onSave ''u3'' ''t3'' Development ''C'' [] (onSave ''u2'' ''t2'' Struggles ''B'' []
        (onSave ''u1'' ''t1'' Mindset ''A'' [] (App_init 0 Map.empty))))) =
     [Development, Mindset, Struggles]"
  using filterByCategory_all [of toLowerCase_ascii "onSave ''u3'' ''t3'' Development ''C'' []
      (onSave ''u2'' ''t2'' Struggles ''B'' [] (onSave ''u1'' ''t1'' Mindset ''A'' []
        (App_init 0 Map.empty)))"]
  by (simp add: memory_onSave App_init_def DEFAULT_MEMORY_def)

lemma str_includes_Nil: "str_includes s []"
  by (cases s) simp_all

lemma str_includes_sublist: "str_includes s q \<longleftrightarrow> sublist q s"
  by (induction s) (auto simp: sublist_Cons_right)

lemma contains_ci_Nil: "toLowerCase [] = [] \<Longrightarrow> contains_ci toLowerCase s []"
  by (simp add: contains_ci_def str_includes_Nil)

lemma item_matches_spec:
  "toLowerCase [] = [] \<Longrightarrow> item_matches toLowerCase q item = matches_spec toLowerCase q item"
  by (cases "details (value item)")
    (auto simp: item_matches_def matches_spec_def contains_ci_def details_entries_def js_or_def
      truthy_def Let_def str_includes_Nil)

lemma items_spec_memory_get: "items_spec m cat = memory_get m cat"
  by (cases cat) (simp_all add: items_spec_def)

lemma search_Nil: "search toLowerCase [] st = filterByCategory toLowerCase (journalFilter st) st"
  by (simp add: search_def filterByCategory_def renderJournal_def)

lemma search_groups:
  "toLowerCase [] = [] \<Longrightarrow> search toLowerCase q st = search_spec toLowerCase q st"
proof (cases "journalFilter st")
  case All
  assume "toLowerCase [] = []"
  then show ?thesis
    using All
    by (simp add: search_def renderJournal_def journal_cards_def shown_categories_All
        filteredItems_def search_spec_def group_spec_def items_spec_memory_get
        item_matches_spec cong: filter_cong)
next
  case (Only c)
  assume "toLowerCase [] = []"
  then show ?thesis
    using Only
    by (cases c)
      (simp_all add: search_def renderJournal_def journal_cards_def shown_categories_Only
        filteredItems_def search_spec_def group_spec_def items_spec_memory_get
        item_matches_spec cong: filter_cong)
qed

lemma set_search_spec:
  "set (search_spec toLowerCase q st) =
     {(cat, item). item \<in> set (items_spec (memory st) cat) \<and> filter_keeps (journalFilter st) cat
        \<and> matches_spec toLowerCase q item}"
proof -
  have group: "set (group_spec toLowerCase q f m c) =
      {(cat, item). cat = c \<and> item \<in> set (items_spec m cat) \<and> filter_keeps f cat
         \<and> matches_spec toLowerCase q item}" for f m c
    by (auto simp: group_spec_def)
  have cats: "cat = Development \<or> cat = Mindset \<or> cat = Struggles" for cat :: Category
    by (cases cat) simp_all
  show ?thesis
    using cats by (auto simp: search_spec_def group)
qed

lemma global_item_matches_no_details:
  "details (value item) = None \<Longrightarrow>
     global_item_matches toLowerCase q item = contains_ci toLowerCase (description (value item)) q"
  by (simp add: global_item_matches_def contains_ci_def js_or_def truthy_def)

lemma global_item_matches_eq:
  "q \<noteq> [] \<Longrightarrow> global_item_matches toLowerCase q item = item_matches toLowerCase q item"
  by (simp add: global_item_matches_def item_matches_def Let_def)

lemma global_empty_state_no_cards:
  "global_empty_state toLowerCase st \<longleftrightarrow>
     journalSearchQuery st \<noteq> []
     \<and> journal_cards toLowerCase (memory st) All (journalSearchQuery st) = []"
  by (auto simp: global_empty_state_def journal_cards_def filteredItems_def shown_categories_All
      global_item_matches_eq cong: filter_cong)

lemma examples_lower:
  "toLowerCase_ascii [] = []"
  "contains_ci toLowerCase_ascii ''Morning Routine'' ''morning''"
  "\<not> contains_ci toLowerCase_ascii ''Morning Routine'' ''sleep''"
  by (simp add: toLowerCase_ascii_def) code_simp+

text \<open>
  C6. For every function in the place of \<open>toLowerCase\<close> that maps the empty
  string to the empty string, as that of JavaScript does: the search returns
  exactly the items of the current category filter that match the query, that is,
  the items of the store whose category the filter keeps and whose description
  contains the query case-insensitively or some entry of whose details does. The
  result is the list that the specification describes, group by group, and as a
  set it is the set of those items. With the empty query the search is the
  filtered journal.
\<close>

theorem search_is_filter_and_match:
  "toLowerCase [] = [] \<Longrightarrow>
     search toLowerCase q st = search_spec toLowerCase q st
     \<and> set (search toLowerCase q st) =
         {(cat, item). item \<in> set (items_spec (memory st) cat)
            \<and> filter_keeps (journalFilter st) cat \<and> matches_spec toLowerCase q item}
     \<and> search toLowerCase [] st = filterByCategory toLowerCase (journalFilter st) st"
proof -
  assume e: "toLowerCase [] = []"
  have a: "search toLowerCase q st = search_spec toLowerCase q st"
    using e by (rule search_groups)
  have b: "set (search toLowerCase q st) =
         {(cat, item). item \<in> set (items_spec (memory st) cat)
            \<and> filter_keeps (journalFilter st) cat \<and> matches_spec toLowerCase q item}"
    by (simp only: a set_search_spec)
  have c: "search toLowerCase [] st = filterByCategory toLowerCase (journalFilter st) st"
    by (rule search_Nil)
  show ?thesis
    using a b c by blast
qed

theorem search_is_filter_and_match_witness:
  "toLowerCase_ascii [] = []
   \<and> map (\<lambda>(cat, item). (cat, MemoryItem.id item)) (search toLowerCase_ascii ''morning'' journal_example)
       = [(Mindset, ''u3''), (Struggles, ''old'')]
   \<and> map (\<lambda>(cat, item). (cat, MemoryItem.id item))
        (search toLowerCase_ascii ''morning'' (journal_example\<lparr>journalFilter := Only Struggles\<rparr>))
       = [(Struggles, ''old'')]
   \<and> map (\<lambda>(cat, item). (cat, MemoryItem.id item))
        (search toLowerCase_ascii ''morning'' (journal_example\<lparr>journalFilter := Only Development\<rparr>))
       = []
   \<and> map (\<lambda>(cat, item). (cat, MemoryItem.id item))
        (search toLowerCase_ascii [] (journal_example\<lparr>journalFilter := Only Struggles\<rparr>))
       = [(Struggles, ''u2''), (Struggles, ''old'')]"
proof -
  note e = examples_lower(1)
  have a: "search toLowerCase_ascii ''morning'' journal_example
      = search_spec toLowerCase_ascii ''morning'' journal_example"
    using search_is_filter_and_match [of toLowerCase_ascii "''morning''" journal_example] e by blast
  have b: "search toLowerCase_ascii ''morning'' (journal_example\<lparr>journalFilter := Only Struggles\<rparr>)
      = search_spec toLowerCase_ascii ''morning'' (journal_example\<lparr>journalFilter := Only Struggles\<rparr>)"
    using search_is_filter_and_match [of toLowerCase_ascii "''morning''"
        "journal_example\<lparr>journalFilter := Only Struggles\<rparr>"] e by blast
  have c: "search toLowerCase_ascii ''morning'' (journal_example\<lparr>journalFilter := Only Development\<rparr>)
      = search_spec toLowerCase_ascii ''morning'' (journal_example\<lparr>journalFilter := Only Development\<rparr>)"
    using search_is_filter_and_match [of toLowerCase_ascii "''morning''"
        "journal_example\<lparr>journalFilter := Only Development\<rparr>"] e by blast
  have d: "search toLowerCase_ascii [] (journal_example\<lparr>journalFilter := Only Struggles\<rparr>)
      = search_spec toLowerCase_ascii [] (journal_example\<lparr>journalFilter := Only Struggles\<rparr>)"
    using search_is_filter_and_match [of toLowerCase_ascii "[]"
        "journal_example\<lparr>journalFilter := Only Struggles\<rparr>"] e by blast
  have a': "map (\<lambda>(cat, item). (cat, MemoryItem.id item))
        (search_spec toLowerCase_ascii ''morning'' journal_example)
       = [(Mindset, ''u3''), (Struggles, ''old'')]"
    by code_simp
  have b': "map (\<lambda>(cat, item). (cat, MemoryItem.id item))
        (search_spec toLowerCase_ascii ''morning'' (journal_example\<lparr>journalFilter := Only Struggles\<rparr>))
       = [(Struggles, ''old'')]"
    by code_simp
  have c': "map (\<lambda>(cat, item). (cat, MemoryItem.id item))
        (search_spec toLowerCase_ascii ''morning'' (journal_example\<lparr>journalFilter := Only Development\<rparr>))
       = []"
    by code_simp
  have d': "map (\<lambda>(cat, item). (cat, MemoryItem.id item))
        (search_spec toLowerCase_ascii [] (journal_example\<lparr>journalFilter := Only Struggles\<rparr>))
       = [(Struggles, ''u2''), (Struggles, ''old'')]"
    by code_simp
  show ?thesis
    using e a b c d a' b' c' d' by simp
qed

text \<open>
  C10. A record without a \<open>details\<close> field. The test of the search is a total
  function: the optional call \<open>details?.some\<close> gives undefined, no branch fails,
  and undefined counts as no match. For every function in the place of
  \<open>toLowerCase\<close> that maps the empty string to the empty string: such a record
  matches exactly when its description contains the query case-insensitively, so
  it is in the result of the search exactly when it is an item of the store in a
  category that the filter keeps and its description contains the query. The
  check for the message that nothing was found reads it the same way.
\<close>

theorem search_without_details:
  "toLowerCase [] = [] \<Longrightarrow> details (value item) = None \<Longrightarrow>
     item_matches toLowerCase q item = contains_ci toLowerCase (description (value item)) q
     \<and> ((cat, item) \<in> set (search toLowerCase q st) \<longleftrightarrow>
          item \<in> set (items_spec (memory st) cat) \<and> filter_keeps (journalFilter st) cat
          \<and> contains_ci toLowerCase (description (value item)) q)
     \<and> global_item_matches toLowerCase q item = contains_ci toLowerCase (description (value item)) q"
proof -
  assume e: "toLowerCase [] = []" and d: "details (value item) = None"
  have m: "matches_spec toLowerCase q item = contains_ci toLowerCase (description (value item)) q"
    using d by (simp add: matches_spec_def details_entries_def)
  have a: "item_matches toLowerCase q item = contains_ci toLowerCase (description (value item)) q"
    using e m by (simp add: item_matches_spec)
  have b: "(cat, item) \<in> set (search toLowerCase q st) \<longleftrightarrow>
          item \<in> set (items_spec (memory st) cat) \<and> filter_keeps (journalFilter st) cat
          \<and> contains_ci toLowerCase (description (value item)) q"
    using e m by (simp add: search_groups set_search_spec)
  have c: "global_item_matches toLowerCase q item = contains_ci toLowerCase (description (value item)) q"
    using d by (rule global_item_matches_no_details)
  show ?thesis
    using a b c by blast
qed

theorem search_without_details_witness:
  "toLowerCase_ascii [] = []
   \<and> details (value legacy_item) = None
   \<and> (Struggles, legacy_item) \<in> set (search toLowerCase_ascii ''morning'' journal_example)
   \<and> (Struggles, legacy_item) \<notin> set (search toLowerCase_ascii ''sleep'' journal_example)
   \<and> (Struggles, legacy_item)
       \<notin> set (search toLowerCase_ascii ''morning'' (journal_example\<lparr>journalFilter := Only Mindset\<rparr>))"
proof -
  note e = examples_lower(1)
  have d: "details (value legacy_item) = None"
    by (simp add: legacy_item_def)
  have desc: "description (value legacy_item) = ''Morning Routine''"
    by (simp add: legacy_item_def)
  have i: "legacy_item \<in> set (items_spec (memory journal_example) Struggles)"
    by (simp add: items_spec_def journal_example_def memory_onSave App_init_def DEFAULT_MEMORY_def)
  have i': "items_spec (memory (journal_example\<lparr>journalFilter := Only Mindset\<rparr>)) Struggles
      = items_spec (memory journal_example) Struggles"
    by simp
  have f: "journalFilter journal_example = All"
    by (simp add: journal_example_def onSave_def Let_def App_init_def)
  have y: "contains_ci toLowerCase_ascii (description (value legacy_item)) ''morning''"
    using examples_lower(2) desc by simp
  have n: "\<not> contains_ci toLowerCase_ascii (description (value legacy_item)) ''sleep''"
    using examples_lower(3) desc by simp
  have k: "filter_keeps (journalFilter journal_example) Struggles"
    using f by simp
  have k': "\<not> filter_keeps (journalFilter (journal_example\<lparr>journalFilter := Only Mindset\<rparr>)) Struggles"
    by simp
  show ?thesis
    using e d i y n k k'
      search_without_details [of toLowerCase_ascii legacy_item "''morning''" Struggles journal_example]
      search_without_details [of toLowerCase_ascii legacy_item "''sleep''" Struggles journal_example]
      search_without_details [of toLowerCase_ascii legacy_item "''morning''" Struggles
        "journal_example\<lparr>journalFilter := Only Mindset\<rparr>"]
    by blast
qed

section \<open>\<open>JSON.parse\<close> reads back what \<open>JSON.stringify\<close> writes\<close>

lemma hex_value_hex_digit: "k < 16 \<Longrightarrow> hex_value (hex_digit k) = Some k"
  by (auto simp: hex_value_def hex_digit_def Let_def)

lemma hex4_escape: "n < 32 \<Longrightarrow> hex4 (CHR ''0'') (CHR ''0'') (hex_digit (n div 16)) (hex_digit (n mod 16)) = Some n"
proof -
  assume n: "n < 32"
  have z: "hex_value (CHR ''0'') = Some 0"
    by (simp add: hex_value_def)
  have a: "hex_value (hex_digit (n div 16)) = Some (n div 16)"
    using n by (intro hex_value_hex_digit) auto
  have b: "hex_value (hex_digit (n mod 16)) = Some (n mod 16)"
    by (intro hex_value_hex_digit) auto
  show ?thesis
    by (simp add: hex4_def z a b)
qed

lemma lex_string_quote_char:
  "lex_string (QuoteJSONString_char c @ body) =
     map_option (\<lambda>(ps, rest). (piece_of c # ps, rest)) (lex_string body)"
proof -
  consider (simple) "c = CHR 0x08 \<or> c = CHR 0x09 \<or> c = CHR 0x0A \<or> c = CHR 0x0C \<or> c = CHR 0x0D
         \<or> c = CHR 0x22 \<or> c = CHR 0x5C"
    | (control) "\<not> (c = CHR 0x08 \<or> c = CHR 0x09 \<or> c = CHR 0x0A \<or> c = CHR 0x0C \<or> c = CHR 0x0D
         \<or> c = CHR 0x22 \<or> c = CHR 0x5C)" "(of_char c :: nat) < 32"
    | (plain) "\<not> (c = CHR 0x08 \<or> c = CHR 0x09 \<or> c = CHR 0x0A \<or> c = CHR 0x0C \<or> c = CHR 0x0D
         \<or> c = CHR 0x22 \<or> c = CHR 0x5C)" "\<not> (of_char c :: nat) < 32"
    by blast
  then show ?thesis
  proof cases
    case simple
    then show ?thesis
      by (auto simp: QuoteJSONString_char_def piece_of_def simple_escape_def)
  next
    case control
    then show ?thesis
      by (simp add: QuoteJSONString_char_def piece_of_def hex4_escape)
  next
    case plain
    then show ?thesis
      by (simp add: QuoteJSONString_char_def piece_of_def)
  qed
qed

lemma lex_string_quoted:
  "lex_string (concat (map QuoteJSONString_char s) @ CHR 0x22 # rest) = Some (map piece_of s, rest)"
  by (induction s) (simp_all add: lex_string_quote_char)

lemma utf8_ascii: "(of_char c :: nat) < 128 \<Longrightarrow> utf8 (of_char c) = [c]"
  by (simp add: utf8_def)

lemma decode_pieces_Esc: "u < 0xD800 \<Longrightarrow> decode_pieces (Esc u # ps) = utf8 u @ decode_pieces ps"
proof (cases ps)
  case Nil
  then show ?thesis by simp
next
  case (Cons p ps')
  assume "u < 0xD800"
  then show ?thesis
    using Cons by (cases p) simp_all
qed

lemma decode_pieces_piece_of: "decode_pieces (piece_of c # ps) = c # decode_pieces ps"
  by (simp add: piece_of_def decode_pieces_Esc utf8_ascii)

lemma decode_pieces_quoted: "decode_pieces (map piece_of s) = s"
  by (induction s) (simp_all add: decode_pieces_piece_of)

lemma tokenize_QuoteJSONString:
  "tokenize (QuoteJSONString s @ rest) = map_option (Cons (TString s)) (tokenize rest)"
  by (simp add: QuoteJSONString_def isJSONWhiteSpace_def punctuator_def lex_token_def
      lex_string_quoted decode_pieces_quoted)

lemma tokenize_punct:
  "tokenize (CHR ''['' # s) = map_option (Cons TLBracket) (tokenize s)"
  "tokenize (CHR '']'' # s) = map_option (Cons TRBracket) (tokenize s)"
  "tokenize (CHR ''{'' # s) = map_option (Cons TLBrace) (tokenize s)"
  "tokenize (CHR ''}'' # s) = map_option (Cons TRBrace) (tokenize s)"
  "tokenize (CHR '','' # s) = map_option (Cons TComma) (tokenize s)"
  "tokenize (CHR '':'' # s) = map_option (Cons TColon) (tokenize s)"
  by (simp_all add: isJSONWhiteSpace_def punctuator_def)

lemma tokenize_literal:
  "tokenize (''null'' @ s) = map_option (Cons TNull) (tokenize s)"
  "tokenize (''true'' @ s) = map_option (Cons TTrue) (tokenize s)"
  "tokenize (''false'' @ s) = map_option (Cons TFalse) (tokenize s)"
  by (simp_all add: isJSONWhiteSpace_def punctuator_def lex_token_def lex_literal_def isDigit_def)

lemma join_commas_Cons:
  "join_commas (x # xs) = x @ (if xs = [] then [] else '','' @ join_commas xs)"
  by (cases xs) simp_all

lemma map_option_append_tokens:
  "map_option ((@) ts) (map_option ((@) us) r) = map_option ((@) (ts @ us)) r"
  by (cases r) simp_all

lemma map_option_Cons_tokens:
  "map_option (Cons t) (map_option ((@) us) r) = map_option ((@) (t # us)) r"
  by (cases r) simp_all

lemma stringify_elements_Nil: "stringify_elements xs = [] \<longleftrightarrow> xs = []"
  by (cases xs) simp_all

lemma stringify_members_Nil: "stringify_members kvs = [] \<longleftrightarrow> kvs = []"
  by (cases kvs) auto

lemma tokenize_stringify:
  "storable j \<Longrightarrow>
     tokenize (JSON_stringify j @ rest) = map_option ((@) (tokens_of j)) (tokenize rest)"
  "storable_elements xs \<Longrightarrow>
     tokenize (join_commas (stringify_elements xs) @ rest)
       = map_option ((@) (tokens_elements xs)) (tokenize rest)"
  "storable_members kvs \<Longrightarrow>
     tokenize (join_commas (stringify_members kvs) @ rest)
       = map_option ((@) (tokens_members kvs)) (tokenize rest)"
proof (induction j and xs and kvs arbitrary: rest and rest and rest rule: JSON_stringify_stringify_elements_stringify_members.induct)
  case 1
  then show ?case
    using tokenize_literal(1) [of rest] by (cases "tokenize rest") (simp_all del: tokenize.simps)
next
  case (2 b)
  then show ?case
    using tokenize_literal(2) [of rest] tokenize_literal(3) [of rest]
    by (cases "tokenize rest") (simp_all del: tokenize.simps)
next
  case (3 n)
  then show ?case by simp
next
  case (4 s)
  then show ?case
    by (cases "tokenize rest") (simp_all add: tokenize_QuoteJSONString del: tokenize.simps)
next
  case (5 xs)
  then show ?case
    by (cases "tokenize rest") (simp_all add: tokenize_punct del: tokenize.simps)
next
  case (6 kvs)
  then show ?case
    by (cases "tokenize rest") (simp_all add: tokenize_punct del: tokenize.simps)
next
  case 7
  then show ?case
    by (cases "tokenize rest") simp_all
next
  case (8 x xs)
  then show ?case
    by (cases "tokenize rest")
      (simp_all add: join_commas_Cons tokenize_punct map_option_append_tokens stringify_elements_Nil
        del: tokenize.simps)
next
  case 9
  then show ?case
    by (cases "tokenize rest") simp_all
next
  case (10 k v kvs)
  then show ?case
    by (cases "tokenize rest")
      (simp_all add: join_commas_Cons tokenize_punct tokenize_QuoteJSONString stringify_members_Nil
        del: tokenize.simps)
qed

lemma parse_tokens_Cons: "parse_tokens p st (t # ts) = parse_rest (parse_step p st t) ts"
  by (simp add: parse_rest_def)

lemma parse_rest_Some: "parse_rest (Some (p, st)) ts = parse_tokens p st ts"
  by (simp add: parse_rest_def)

lemma obj_put_fresh: "k \<notin> fst ` set kvs \<Longrightarrow> obj_put kvs k v = kvs @ [(k, v)]"
  by (induction kvs) auto

lemma parse_tokens_stringify:
  "storable j \<Longrightarrow> p = PValue \<or> p = PArrFirst \<Longrightarrow>
     parse_tokens p st (tokens_of j @ ts) = parse_rest (push_value j st) ts"
  "storable_elements xs \<Longrightarrow> xs \<noteq> [] \<Longrightarrow> p = PValue \<or> p = PArrFirst \<Longrightarrow>
     parse_tokens p (FArr acc # st) (tokens_elements xs @ TRBracket # ts)
       = parse_rest (push_value (JArr (acc @ xs)) st) ts"
  "storable_members kvs \<Longrightarrow> kvs \<noteq> [] \<Longrightarrow> distinct (map fst (mem @ kvs)) \<Longrightarrow>
     p = PObjFirst \<or> p = PObjKey \<Longrightarrow>
     parse_tokens p (FObj mem # st) (tokens_members kvs @ TRBrace # ts)
       = parse_rest (push_value (JObj (mem @ kvs)) st) ts"
proof (induction j and xs and kvs arbitrary: p st ts and p st ts acc and p st ts mem
    rule: JSON_stringify_stringify_elements_stringify_members.induct)
  case 1
  then show ?case
    by (auto simp: parse_tokens_Cons simp del: parse_tokens.simps)
next
  case (2 b)
  then show ?case
    by (auto simp: parse_tokens_Cons simp del: parse_tokens.simps)
next
  case (3 n)
  then show ?case by simp
next
  case (4 s)
  then show ?case
    by (auto simp: parse_tokens_Cons simp del: parse_tokens.simps)
next
  case (5 xs)
  have start: "parse_step p st TLBracket = Some (PArrFirst, FArr [] # st)"
    using 5(3) by auto
  show ?case
  proof (cases "xs = []")
    case True
    then show ?thesis
      by (simp add: parse_tokens_Cons start parse_rest_Some del: parse_tokens.simps)
  next
    case False
    have "parse_tokens PArrFirst (FArr [] # st) (tokens_elements xs @ TRBracket # ts)
        = parse_rest (push_value (JArr ([] @ xs)) st) ts"
      using 5(2) False by (intro 5(1)) simp_all
    then show ?thesis
      by (simp add: parse_tokens_Cons start parse_rest_Some del: parse_tokens.simps)
  qed
next
  case (6 kvs)
  have start: "parse_step p st TLBrace = Some (PObjFirst, FObj [] # st)"
    using 6(3) by auto
  show ?case
  proof (cases "kvs = []")
    case True
    then show ?thesis
      by (simp add: parse_tokens_Cons start parse_rest_Some del: parse_tokens.simps)
  next
    case False
    have "parse_tokens PObjFirst (FObj [] # st) (tokens_members kvs @ TRBrace # ts)
        = parse_rest (push_value (JObj ([] @ kvs)) st) ts"
      using 6(2) False by (intro 6(1)) simp_all
    then show ?thesis
      by (simp add: parse_tokens_Cons start parse_rest_Some del: parse_tokens.simps)
  qed
next
  case 7
  then show ?case by simp
next
  case (8 x xs)
  have sx: "storable x" and sxs: "storable_elements xs"
    using 8(3) by simp_all
  have first: "parse_tokens p (FArr acc # st) (tokens_of x @ rest)
      = parse_tokens PArrNext (FArr (acc @ [x]) # st) rest" for rest
    using 8(1) [OF sx 8(5), of "FArr acc # st" rest] by (simp add: parse_rest_Some)
  show ?case
  proof (cases "xs = []")
    case True
    then show ?thesis
      by (simp add: first parse_tokens_Cons del: parse_tokens.simps)
  next
    case False
    have "parse_tokens PValue (FArr (acc @ [x]) # st) (tokens_elements xs @ TRBracket # ts)
        = parse_rest (push_value (JArr ((acc @ [x]) @ xs)) st) ts"
      using sxs False by (intro 8(2)) simp_all
    then show ?thesis
      using False by (simp add: first parse_tokens_Cons parse_rest_Some del: parse_tokens.simps)
  qed
next
  case 9
  then show ?case by simp
next
  case (10 k v kvs)
  have sv: "storable v" and skvs: "storable_members kvs"
    using 10(3) by simp_all
  have fresh: "k \<notin> fst ` set mem" and d: "distinct (map fst ((mem @ [(k, v)]) @ kvs))"
    using 10(5) by auto
  have key: "parse_step p (FObj mem # st) (TString k) = Some (PObjColon, FKey mem k # st)"
    using 10(6) by auto
  have val: "parse_tokens PValue (FKey mem k # st) (tokens_of v @ rest)
      = parse_tokens PObjNext (FObj (mem @ [(k, v)]) # st) rest" for rest
    using 10(1) [OF sv, of PValue "FKey mem k # st" rest] fresh
    by (simp add: parse_rest_Some obj_put_fresh)
  show ?case
  proof (cases "kvs = []")
    case True
    then show ?thesis
      by (simp add: parse_tokens_Cons key parse_rest_Some val del: parse_tokens.simps)
  next
    case False
    have "parse_tokens PObjKey (FObj (mem @ [(k, v)]) # st) (tokens_members kvs @ TRBrace # ts)
        = parse_rest (push_value (JObj ((mem @ [(k, v)]) @ kvs)) st) ts"
      using skvs False d by (intro 10(2)) simp_all
    then show ?thesis
      using False
      by (simp add: parse_tokens_Cons key parse_rest_Some val del: parse_tokens.simps)
  qed
qed

lemma JSON_parse_stringify: "storable j \<Longrightarrow> JSON_parse (JSON_stringify j) = Some j"
proof -
  assume s: "storable j"
  have "tokenize (JSON_stringify j @ []) = map_option ((@) (tokens_of j)) (tokenize [])"
    using s by (rule tokenize_stringify(1))
  then have t: "tokenize (JSON_stringify j) = Some (tokens_of j)"
    by simp
  have "parse_tokens PValue [] (tokens_of j @ []) = parse_rest (push_value j []) []"
    using s by (intro parse_tokens_stringify(1)) simp_all
  then have "parse_tokens PValue [] (tokens_of j) = Some j"
    by (simp add: parse_rest_def)
  with t show ?thesis
    by (simp add: JSON_parse_def)
qed

lemma storable_strings: "storable_elements (map JStr ds)"
  by (induction ds) simp_all

lemma storable_MemoryItem: "storable (MemoryItem_json i)"
  by (cases "details (value i)") (simp_all add: MemoryItem_json_def MemoryValue_json_def storable_strings)

lemma storable_items: "storable_elements (map MemoryItem_json xs)"
  by (induction xs) (simp_all add: storable_MemoryItem)

lemma storable_MemoryStore: "storable (MemoryStore_json m)"
  by (simp add: MemoryStore_json_def storable_items)

section \<open>Properties of loading\<close>

lemma stored_example_parse:
  "JSON_parse stored_example = Some (MemoryStore_json (memory journal_example))"
  by code_simp

lemma stored_example_not_empty: "stored_example \<noteq> []"
  by code_simp

text \<open>
  C1, as stated, fails: a stored text that is not JSON makes \<open>load\<close> raise. The
  text here is a store cut off in the middle; \<open>JSON.parse\<close> throws a SyntaxError,
  nothing catches it, and no default store results.
\<close>

theorem load_corrupt_counterexample:
  \<open>load (Some ''{"struggles":['') = Inl SyntaxError\<close>
  by code_simp

text \<open>
  C1, amended. When nothing is stored under the memory key, or the empty string
  is, \<open>load\<close> does not raise and the store is the empty default store. When a
  non-empty text is stored and it is well-formed JSON, \<open>load\<close> does not raise and
  the store is the value parsed from it; in particular the text that
  \<open>JSON.stringify\<close> writes for a store \<open>m\<close> is parsed into \<open>m\<close>, for every store,
  and what \<open>onSave\<close> has written is loaded as the store that \<open>onSave\<close> has set.
  When a non-empty text is stored and it is not JSON, \<open>load\<close> raises the
  SyntaxError of \<open>JSON.parse\<close>; there is no fallback to the default store.
\<close>

theorem load_cases:
  "load None = Inr (MemoryStore_json DEFAULT_MEMORY)
   \<and> load (Some []) = Inr (MemoryStore_json DEFAULT_MEMORY)
   \<and> (s \<noteq> [] \<and> JSON_parse s = Some parsed \<longrightarrow> load (Some s) = Inr parsed)
   \<and> load (Some (JSON_stringify (MemoryStore_json m))) = Inr (MemoryStore_json m)
   \<and> load (localStorage (onSave uuid now c d det st) ''lucy_memory'')
       = Inr (MemoryStore_json (memory (onSave uuid now c d det st)))
   \<and> (s \<noteq> [] \<and> JSON_parse s = None \<longrightarrow> load (Some s) = Inl SyntaxError)"
proof -
  have reread: "load (Some (JSON_stringify (MemoryStore_json m'))) = Inr (MemoryStore_json m')" for m'
  proof -
    have "JSON_stringify (MemoryStore_json m') \<noteq> []"
      by (simp add: MemoryStore_json_def)
    moreover have "JSON_parse (JSON_stringify (MemoryStore_json m')) = Some (MemoryStore_json m')"
      using storable_MemoryStore by (rule JSON_parse_stringify)
    ultimately show ?thesis
      by (simp add: load_def)
  qed
  have saved: "localStorage (onSave uuid now c d det st) ''lucy_memory''
      = Some (JSON_stringify (MemoryStore_json (memory (onSave uuid now c d det st))))"
    by (simp add: onSave_def Let_def)
  show ?thesis
    using reread by (simp add: load_def saved)
qed

theorem load_cases_witness:
  "stored_example \<noteq> []
   \<and> JSON_parse stored_example = Some (MemoryStore_json (memory journal_example))
   \<and> load (Some stored_example) = Inr (MemoryStore_json (memory journal_example))
   \<and> ''{'' \<noteq> [] \<and> JSON_parse ''{'' = None \<and> load (Some ''{'') = Inl SyntaxError"
proof -
  have bad: "JSON_parse ''{'' = None"
    by code_simp
  have ne: "''{'' \<noteq> []"
    by simp
  show ?thesis
    using stored_example_not_empty stored_example_parse bad ne
      load_cases [of stored_example "MemoryStore_json (memory journal_example)" DEFAULT_MEMORY
        "''u1''" "''t1''" Mindset "''A''" "[]" "App_init 0 Map.empty"]
      load_cases [of "''{''" JNull DEFAULT_MEMORY "''u1''" "''t1''" Mindset "''A''" "[]"
        "App_init 0 Map.empty"]
    by blast
qed

section \<open>Properties of the validation of a new record\<close>

lemma addRecord_valid:
  "trim d \<noteq> [] \<Longrightarrow>
     addRecord trim uuid now c d det st =
       (Inr \<lparr>MemoryItem.id = uuid, timestamp = now,
              value = \<lparr>description = d, details = Some (clean_details trim det)\<rparr>\<rparr>,
        onSave uuid now c d (clean_details trim det) st)"
  by (simp add: addRecord_def)

lemma examples_trim:
  "trim_utf8 [] = []"
  "trim_utf8 ''   '' = []"
  "trim_utf8 [CHR 0xC2, CHR 0xA0] = []"
  "trim_utf8 [CHR 0x09, CHR 0xE3, CHR 0x80, CHR 0x80, CHR 0x0A] = []"
  "trim_utf8 ''hello'' = ''hello''"
  "trim_utf8 ''again'' = ''again''"
  "trim_utf8 ''retry'' = ''retry''"
  "trim_utf8 ''more'' = ''more''"
  "trim_utf8 '' Stay calm  '' = ''Stay calm''"
  by code_simp+

text \<open>
  C2. For every function in the place of \<open>trim\<close>: with a description that is
  empty after trimming, that is, empty or white space only, \<open>addRecord\<close> fails
  with \<open>ValidationError\<close> and the state is the one before: no item is added to
  any category and nothing is written to \<open>localStorage\<close>. This holds for every
  category and every details list. The validation is the one modelled from the
  specification; \<open>onSave\<close>, from the source, is reached only past it.
\<close>

theorem addRecord_validation:
  "trim d = [] \<Longrightarrow>
     addRecord trim uuid now c d det st = (Inl ValidationError, st)
     \<and> memory (snd (addRecord trim uuid now c d det st)) = memory st
     \<and> (\<forall>cat. memory_get (queryAll (snd (addRecord trim uuid now c d det st))) cat
           = memory_get (queryAll st) cat)
     \<and> localStorage (snd (addRecord trim uuid now c d det st)) = localStorage st"
  by (simp add: addRecord_def)

theorem addRecord_validation_witness:
  "trim_utf8 ''   '' = []
   \<and> addRecord trim_utf8 ''u1'' ''t1'' Mindset ''   '' [''x''] App_example
       = (Inl ValidationError, App_example)
   \<and> trim_utf8 [CHR 0xC2, CHR 0xA0] = []
   \<and> addRecord trim_utf8 ''u1'' ''t1'' Struggles [CHR 0xC2, CHR 0xA0] [] App_example
       = (Inl ValidationError, App_example)"
  using examples_trim(2) examples_trim(3)
    addRecord_validation [of trim_utf8 "''   ''" "''u1''" "''t1''" Mindset "[''x'']" App_example]
    addRecord_validation [of trim_utf8 "[CHR 0xC2, CHR 0xA0]" "''u1''" "''t1''" Struggles "[]"
      App_example]
  by blast

section \<open>Properties of the chat controller\<close>

lemma turns_snoc_user: "turns rs \<Longrightarrow> turns_open (rs @ [user])"
  by (induction rs rule: turns.induct) simp_all

lemma turns_open_snoc_model: "turns_open rs \<Longrightarrow> turns (rs @ [model])"
  by (induction rs rule: turns_open.induct) simp_all

lemma turns_even: "turns rs \<Longrightarrow> even (length rs)"
  by (induction rs rule: turns.induct) simp_all

lemma chat_inv_init: "chat_inv (Session_init now ls m)"
  by (simp add: chat_inv_def Session_init_def App_init_def greeting_def)

lemma chat_inv_fire: "chat_inv w \<Longrightarrow> fire trim e w = Some w' \<Longrightarrow> chat_inv w'"
proof (cases e)
  case (SendMessage uuid now)
  assume "chat_inv w" "fire trim e w = Some w'"
  then show ?thesis
    using SendMessage
    by (auto simp: chat_inv_def handleSendMessage_def Let_def turns_snoc_user
        split: list.splits if_splits option.splits)
next
  case (Settle result uuid now)
  assume "chat_inv w" "fire trim e w = Some w'"
  then show ?thesis
    using Settle
    by (auto simp: chat_inv_def handleSendMessage_settled_def Let_def turns_open_snoc_model
        split: list.splits if_splits outcome.splits)
next
  case (Save uuid now c d det)
  assume "chat_inv w" "fire trim e w = Some w'"
  then show ?thesis
    using Save by (auto simp: chat_inv_def onSave_def Let_def split: list.splits if_splits)
qed (auto simp: chat_inv_def split: list.splits if_splits)

lemma chat_inv_run: "chat_inv w \<Longrightarrow> run trim es w = Some w' \<Longrightarrow> chat_inv w'"
proof (induction es arbitrary: w)
  case Nil
  then show ?case by simp
next
  case (Cons e es)
  then show ?case
    by (auto split: option.splits dest: chat_inv_fire)
qed


lemma chat_inv_reached: "run trim es (Session_init now ls m) = Some w \<Longrightarrow> chat_inv w"
  using chat_inv_init chat_inv_run by blast

text \<open>
  C7. For every function in the place of \<open>trim\<close>: while a request is in flight
  (\<open>isChatLoading\<close>, the Awaiting-Response state), or when the text in the input
  is empty after trimming, that is, empty or white space only,
  \<open>handleSendMessage\<close> returns at its guard: the state is the one before, so the
  transcript has the length it had, and no request goes to the backend.
\<close>

theorem send_rejected_is_noop:
  "isChatLoading st \<or> trim (inputMessage st) = [] \<Longrightarrow>
     handleSendMessage trim uuid now st = (st, None)
     \<and> length (chatMessages (fst (handleSendMessage trim uuid now st))) = length (chatMessages st)
     \<and> snd (handleSendMessage trim uuid now st) = None"
  by (auto simp: handleSendMessage_def)

lemma awaiting_example_state:
  "awaiting_example =
     App_example\<lparr>chatMessages := chatMessages App_example @
         [\<lparr>ChatMessage.id = ''u1'', role = user, text = ''hello'', timestamp = 1\<rparr>],
       inputMessage := [], isChatLoading := True\<rparr>"
  by (simp add: awaiting_example_def handleSendMessage_def examples_trim App_example_def App_init_def)

theorem send_rejected_is_noop_witness:
  "isChatLoading (awaiting_example\<lparr>inputMessage := ''again''\<rparr>)
   \<and> handleSendMessage trim_utf8 ''u2'' 2 (awaiting_example\<lparr>inputMessage := ''again''\<rparr>)
       = (awaiting_example\<lparr>inputMessage := ''again''\<rparr>, None)
   \<and> trim_utf8 (inputMessage (App_example\<lparr>inputMessage := ''   ''\<rparr>)) = []
   \<and> handleSendMessage trim_utf8 ''u2'' 2 (App_example\<lparr>inputMessage := ''   ''\<rparr>)
       = (App_example\<lparr>inputMessage := ''   ''\<rparr>, None)
   \<and> trim_utf8 (inputMessage (App_example\<lparr>inputMessage := [CHR 0xC2, CHR 0xA0]\<rparr>)) = []
   \<and> handleSendMessage trim_utf8 ''u2'' 2 (App_example\<lparr>inputMessage := [CHR 0xC2, CHR 0xA0]\<rparr>)
       = (App_example\<lparr>inputMessage := [CHR 0xC2, CHR 0xA0]\<rparr>, None)"
proof -
  have a: "isChatLoading (awaiting_example\<lparr>inputMessage := ''again''\<rparr>)"
    by (simp add: awaiting_example_state)
  have b: "trim_utf8 (inputMessage (App_example\<lparr>inputMessage := ''   ''\<rparr>)) = []"
    by (simp add: examples_trim)
  have c: "trim_utf8 (inputMessage (App_example\<lparr>inputMessage := [CHR 0xC2, CHR 0xA0]\<rparr>)) = []"
    by (simp add: examples_trim)
  show ?thesis
    using a b c
      send_rejected_is_noop [of "awaiting_example\<lparr>inputMessage := ''again''\<rparr>" trim_utf8
        "''u2''" 2]
      send_rejected_is_noop [of "App_example\<lparr>inputMessage := ''   ''\<rparr>" trim_utf8 "''u2''" 2]
      send_rejected_is_noop [of "App_example\<lparr>inputMessage := [CHR 0xC2, CHR 0xA0]\<rparr>" trim_utf8
        "''u2''" 2]
    by blast
qed

text \<open>
  C8. For every function in the place of \<open>trim\<close>: when the backend fails, with
  whatever error, in whatever state the failure finds the application (so also
  after any accepted message), one message is appended, it is the transcript's
  last, its role is \<open>model\<close> and its text the fixed \<open>Connection Error.\<close>; the
  controller is Idle again; and a next send is accepted: for every text that is
  non-empty in the sense of the admission rule (section 4.5 of the specification,
  claim C7), that is, not empty after trimming, the user's message is appended,
  the controller awaits, and the request goes out.
\<close>

theorem backend_failure_path:
  "chatMessages (handleSendMessage_settled (Rejected err) uuid now st) =
     chatMessages st @
       [\<lparr>ChatMessage.id = uuid, role = model, text = ''Connection Error.'', timestamp = now\<rparr>]
   \<and> role (last (chatMessages (handleSendMessage_settled (Rejected err) uuid now st))) = model
   \<and> text (last (chatMessages (handleSendMessage_settled (Rejected err) uuid now st)))
       = ''Connection Error.''
   \<and> \<not> isChatLoading (handleSendMessage_settled (Rejected err) uuid now st)
   \<and> (\<forall>txt uuid' now'. trim txt \<noteq> [] \<longrightarrow>
         handleSendMessage trim uuid' now'
           ((handleSendMessage_settled (Rejected err) uuid now st)\<lparr>inputMessage := txt\<rparr>) =
         ((handleSendMessage_settled (Rejected err) uuid now st)
            \<lparr>chatMessages := chatMessages (handleSendMessage_settled (Rejected err) uuid now st) @
               [\<lparr>ChatMessage.id = uuid', role = user, text = txt, timestamp = now'\<rparr>],
             inputMessage := [], isChatLoading := True\<rparr>,
          Some (txt, memory st)))"
  by (simp add: handleSendMessage_settled_def handleSendMessage_def)

theorem backend_failure_path_witness:
  "snd (handleSendMessage trim_utf8 ''u1'' 1 (App_example\<lparr>inputMessage := ''hello''\<rparr>))
     = Some (''hello'', DEFAULT_MEMORY)
   \<and> map text (chatMessages (handleSendMessage_settled (Rejected ''timeout'') ''u2'' 2 awaiting_example))
     = [''Systems online. Lucy ready.'', ''hello'', ''Connection Error.'']
   \<and> \<not> isChatLoading (handleSendMessage_settled (Rejected ''timeout'') ''u2'' 2 awaiting_example)
   \<and> trim_utf8 ''retry'' \<noteq> []
   \<and> snd (handleSendMessage trim_utf8 ''u3'' 3
        ((handleSendMessage_settled (Rejected ''timeout'') ''u2'' 2 awaiting_example)
           \<lparr>inputMessage := ''retry''\<rparr>)) = Some (''retry'', DEFAULT_MEMORY)"
proof -
  note h = backend_failure_path [of "''timeout''" "''u2''" 2 awaiting_example trim_utf8]
  have first: "snd (handleSendMessage trim_utf8 ''u1'' 1 (App_example\<lparr>inputMessage := ''hello''\<rparr>))
     = Some (''hello'', DEFAULT_MEMORY)"
    by (simp add: handleSendMessage_def examples_trim App_example_def App_init_def)
  have msgs: "chatMessages awaiting_example =
      [\<lparr>ChatMessage.id = ''welcome'', role = model, text = ''Systems online. Lucy ready.'', timestamp = 0\<rparr>,
       \<lparr>ChatMessage.id = ''u1'', role = user, text = ''hello'', timestamp = 1\<rparr>]"
    by (simp add: awaiting_example_state App_example_def App_init_def)
  have mem: "memory awaiting_example = DEFAULT_MEMORY"
    by (simp add: awaiting_example_state App_example_def App_init_def)
  have t: "trim_utf8 ''retry'' \<noteq> []"
    by (simp add: examples_trim)
  have a: "map text (chatMessages (handleSendMessage_settled (Rejected ''timeout'') ''u2'' 2 awaiting_example))
     = [''Systems online. Lucy ready.'', ''hello'', ''Connection Error.'']"
    using h msgs by simp
  have b: "\<not> isChatLoading (handleSendMessage_settled (Rejected ''timeout'') ''u2'' 2 awaiting_example)"
    using h by blast
  have "handleSendMessage trim_utf8 ''u3'' 3
        ((handleSendMessage_settled (Rejected ''timeout'') ''u2'' 2 awaiting_example)
           \<lparr>inputMessage := ''retry''\<rparr>) =
         ((handleSendMessage_settled (Rejected ''timeout'') ''u2'' 2 awaiting_example)
            \<lparr>chatMessages := chatMessages (handleSendMessage_settled (Rejected ''timeout'') ''u2'' 2 awaiting_example) @
               [\<lparr>ChatMessage.id = ''u3'', role = user, text = ''retry'', timestamp = 3\<rparr>],
             inputMessage := [], isChatLoading := True\<rparr>,
          Some (''retry'', memory awaiting_example))"
    using h t by blast
  then have c: "snd (handleSendMessage trim_utf8 ''u3'' 3
        ((handleSendMessage_settled (Rejected ''timeout'') ''u2'' 2 awaiting_example)
           \<lparr>inputMessage := ''retry''\<rparr>)) = Some (''retry'', DEFAULT_MEMORY)"
    using mem by simp
  show ?thesis
    using first a b t c by blast
qed

text \<open>
  C9. The parity of the transcript, for every function in the place of \<open>trim\<close>.
  It starts as the greeting alone. An accepted send, one with the controller Idle
  and the input not empty after trimming, appends one \<open>user\<close> message and makes
  the controller await; the settling of the request appends one \<open>model\<close>
  message, the response or the fixed failure text, and makes it Idle. In every session reached from the start by any
  sequence of events, the first message is the greeting; while the controller
  awaits, exactly one request is open and the roles after the greeting are
  complete \<open>user, model\<close> pairs and one open \<open>user\<close>; while it is Idle, no
  request is open, the roles after the greeting are complete \<open>user, model\<close>
  pairs, and the length of the transcript is odd.
\<close>

theorem transcript_parity:
  "chatMessages (app (Session_init now0 ls m)) =
     [\<lparr>ChatMessage.id = ''welcome'', role = model, text = ''Systems online. Lucy ready.'',
       timestamp = now0\<rparr>]
   \<and> (\<not> isChatLoading st \<and> trim (inputMessage st) \<noteq> [] \<longrightarrow>
        chatMessages (fst (handleSendMessage trim uuid now st)) =
          chatMessages st @
            [\<lparr>ChatMessage.id = uuid, role = user, text = inputMessage st, timestamp = now\<rparr>]
        \<and> isChatLoading (fst (handleSendMessage trim uuid now st)))
   \<and> chatMessages (handleSendMessage_settled result uuid now st) =
        chatMessages st @
          [\<lparr>ChatMessage.id = uuid, role = model,
            text = (case result of Fulfilled responseText \<Rightarrow> responseText
                    | Rejected error \<Rightarrow> ''Connection Error.''),
            timestamp = now\<rparr>]
   \<and> \<not> isChatLoading (handleSendMessage_settled result uuid now st)
   \<and> (run trim es (Session_init now0 ls m) = Some w \<longrightarrow>
        greeting (hd (chatMessages (app w)))
        \<and> (if isChatLoading (app w)
            then length (inflight w) = 1 \<and> turns_open (map role (tl (chatMessages (app w))))
            else inflight w = [] \<and> turns (map role (tl (chatMessages (app w))))
                 \<and> odd (length (chatMessages (app w)))))"
proof -
  have init: "chatMessages (app (Session_init now0 ls m)) =
     [\<lparr>ChatMessage.id = ''welcome'', role = model, text = ''Systems online. Lucy ready.'',
       timestamp = now0\<rparr>]"
    by (simp add: Session_init_def App_init_def)
  have accept: "\<not> isChatLoading st \<and> trim (inputMessage st) \<noteq> [] \<longrightarrow>
        chatMessages (fst (handleSendMessage trim uuid now st)) =
          chatMessages st @
            [\<lparr>ChatMessage.id = uuid, role = user, text = inputMessage st, timestamp = now\<rparr>]
        \<and> isChatLoading (fst (handleSendMessage trim uuid now st))"
    by (simp add: handleSendMessage_def)
  have settle: "chatMessages (handleSendMessage_settled result uuid now st) =
        chatMessages st @
          [\<lparr>ChatMessage.id = uuid, role = model,
            text = (case result of Fulfilled responseText \<Rightarrow> responseText
                    | Rejected error \<Rightarrow> ''Connection Error.''),
            timestamp = now\<rparr>]"
    by (cases result) (simp_all add: handleSendMessage_settled_def)
  have idle: "\<not> isChatLoading (handleSendMessage_settled result uuid now st)"
    by (simp add: handleSendMessage_settled_def)
  have reach: "run trim es (Session_init now0 ls m) = Some w \<longrightarrow>
        greeting (hd (chatMessages (app w)))
        \<and> (if isChatLoading (app w)
            then length (inflight w) = 1 \<and> turns_open (map role (tl (chatMessages (app w))))
            else inflight w = [] \<and> turns (map role (tl (chatMessages (app w))))
                 \<and> odd (length (chatMessages (app w))))"
  proof
    assume "run trim es (Session_init now0 ls m) = Some w"
    then have "chat_inv w"
      by (rule chat_inv_reached)
    then show "greeting (hd (chatMessages (app w)))
        \<and> (if isChatLoading (app w)
            then length (inflight w) = 1 \<and> turns_open (map role (tl (chatMessages (app w))))
            else inflight w = [] \<and> turns (map role (tl (chatMessages (app w))))
                 \<and> odd (length (chatMessages (app w))))"
      by (auto simp: chat_inv_def split: list.splits if_splits dest: turns_even)
  qed
  show ?thesis
    using init accept settle idle reach by blast
qed

theorem transcript_parity_witness:
  "\<not> isChatLoading (App_example\<lparr>inputMessage := ''hello''\<rparr>)
   \<and> trim_utf8 (inputMessage (App_example\<lparr>inputMessage := ''hello''\<rparr>)) \<noteq> []
   \<and> map role (chatMessages awaiting_example) = [model, user]
   \<and> (case run trim_utf8 example_events (Session_init 0 Map.empty DEFAULT_MEMORY) of
         None \<Rightarrow> False
       | Some w \<Rightarrow>
           map role (chatMessages (app w)) = [model, user, model, user, model]
           \<and> \<not> isChatLoading (app w) \<and> inflight w = []
           \<and> turns (map role (tl (chatMessages (app w))))
           \<and> odd (length (chatMessages (app w))))"
proof -
  obtain w where w: "run trim_utf8 example_events (Session_init 0 Map.empty DEFAULT_MEMORY) = Some w"
    and roles: "map role (chatMessages (app w)) = [model, user, model, user, model]"
    and idle: "\<not> isChatLoading (app w)"
    by (simp add: example_events_def Session_init_def App_init_def handleSendMessage_def
        handleSendMessage_settled_def examples_trim)
  note h = transcript_parity [of 0 Map.empty DEFAULT_MEMORY
      "App_example\<lparr>inputMessage := ''hello''\<rparr>" trim_utf8 "''u1''" 1 "Fulfilled ''Hi''"
      example_events w]
  have a: "\<not> isChatLoading (App_example\<lparr>inputMessage := ''hello''\<rparr>)"
    by (simp add: App_example_def App_init_def)
  have b: "trim_utf8 (inputMessage (App_example\<lparr>inputMessage := ''hello''\<rparr>)) \<noteq> []"
    by (simp add: examples_trim)
  have "chatMessages awaiting_example =
      chatMessages (App_example\<lparr>inputMessage := ''hello''\<rparr>) @
        [\<lparr>ChatMessage.id = ''u1'', role = user,
          text = inputMessage (App_example\<lparr>inputMessage := ''hello''\<rparr>),
          timestamp = 1\<rparr>]"
    unfolding awaiting_example_def using h a b by blast
  then have c: "map role (chatMessages awaiting_example) = [model, user]"
    by (simp add: App_example_def App_init_def)
  have d: "inflight w = [] \<and> turns (map role (tl (chatMessages (app w))))
      \<and> odd (length (chatMessages (app w)))"
    using h w idle by simp
  show ?thesis
    using a b c d w roles idle by simp
qed

end
